(* ===== verification/Prelude.thy ===== *)
theory Prelude
  imports Complex_Main "HOL-Library.Sublist"
begin

text \<open>
  Shared vocabulary of the development: the collections of evaluation equations used by
  the witnesses, the type names of the model, and generic lemmas on lists, options and
  sums that the component theories use.
\<close>

named_theorems js_eval \<open>evaluation equations of the modelled JavaScript builtins\<close>
named_theorems app_defs \<open>definitions unfolded when evaluating a step of the page\<close>

text \<open>A JavaScript string is a sequence of UTF-16 code units; the model uses \<^typ>\<open>char\<close>,
  that is code units below 256 (the Latin-1 range, which contains ASCII).\<close>

type_synonym jsstring = string

subsection \<open>Sums as exceptions\<close>

text \<open>\<open>Inl\<close> is a thrown exception, \<open>Inr\<close> a normal result; \<open>sum_bind\<close> propagates the
  first exception, as sequential JavaScript statements do.\<close>

definition sum_bind :: "'e + 'a \<Rightarrow> ('a \<Rightarrow> 'e + 'b) \<Rightarrow> 'e + 'b" where
  "sum_bind r f = (case r of Inl e \<Rightarrow> Inl e | Inr a \<Rightarrow> f a)"

text \<open>Joining strings with a separator, as \<open>Array.prototype.join\<close> does.\<close>

fun join_with :: "'a list \<Rightarrow> 'a list list \<Rightarrow> 'a list" where
  "join_with sep [] = []"
| "join_with sep [s] = s"
| "join_with sep (s # t # ss) = s @ sep @ join_with sep (t # ss)"

lemma sum_bind_Inl [simp]: "sum_bind (Inl e) f = Inl e"
  by (simp add: sum_bind_def)

lemma sum_bind_Inr [simp]: "sum_bind (Inr a) f = f a"
  by (simp add: sum_bind_def)

lemma sum_bind_eq_Inr:
  "sum_bind r f = Inr b \<longleftrightarrow> (\<exists>a. r = Inr a \<and> f a = Inr b)"
  by (cases r) simp_all

lemma sum_bind_eq_Inl:
  "sum_bind r f = Inl e \<longleftrightarrow> r = Inl e \<or> (\<exists>a. r = Inr a \<and> f a = Inl e)"
  by (cases r) simp_all

subsection \<open>Lists\<close>

lemma takeWhile_snoc_not_all:
  "\<not> list_all P (xs @ [x]) \<Longrightarrow> takeWhile P (xs @ [x]) = takeWhile P xs"
  by (induction xs) auto

lemma takeWhile_all_eq: "list_all P xs \<Longrightarrow> takeWhile P xs = xs"
  by (induction xs) auto

text \<open>Replacing the \<open>i\<close>-th element of a list by a list.\<close>

lemma set_take_drop_Suc_subset:
  "set (take i xs @ ys @ drop (Suc i) xs) \<subseteq> set xs \<union> set ys"
  using set_take_subset [of i xs] set_drop_subset [of "Suc i" xs] by auto

lemma sum_list_take_drop_Suc:
  "i < length xs \<Longrightarrow>
   sum_list (map (f :: 'a \<Rightarrow> nat) (take i xs @ ys @ drop (Suc i) xs)) + f (xs ! i) =
   sum_list (map f xs) + sum_list (map f ys)"
proof (induction xs arbitrary: i)
  case Nil
  then show ?case by simp
next
  case (Cons x xs)
  show ?case
  proof (cases i)
    case 0
    then show ?thesis by (simp add: add_ac)
  next
    case (Suc j)
    with Cons.prems have "j < length xs" by simp
    with Cons.IH [of j] Suc show ?thesis by (simp add: add_ac)
  qed
qed

lemma prefix_snoc_right [intro]: "prefix xs ys \<Longrightarrow> prefix xs (ys @ [y])"
  by simp

text \<open>An element that fails \<open>P\<close> bounds the \<open>takeWhile P\<close> of every extension.\<close>

lemma takeWhile_prefix_bound:
  assumes "prefix xs ys" and "i < length xs" and "\<not> P (xs ! i)"
  shows "length (takeWhile P ys) \<le> i"
proof (rule ccontr)
  assume "\<not> length (takeWhile P ys) \<le> i"
  then have i: "i < length (takeWhile P ys)" by simp
  have "ys ! i = xs ! i"
    using assms(1,2) by (metis nth_append prefix_def)
  moreover have "P (ys ! i)"
    using i by (metis nth_mem set_takeWhileD takeWhile_nth)
  ultimately show False using assms(3) by simp
qed

end
