(* ===== verification/JsNumber.thy ===== *)
theory JsNumber
  imports Prelude
begin

text \<open>
  The JavaScript Number type (IEEE 754 binary64). A finite double is kept the way the
  format keeps it, as a significand and a binary exponent: \<open>Fin m e\<close> is the value
  \<open>m * 2 powi e\<close>, normalised so that \<open>m\<close> is odd, or \<open>m = 0\<close> and \<open>e = 0\<close>; NaN and
  the two infinities are constructors of their own. \<open>round_ratio\<close> is the ECMAScript
  rounding of a mathematical value to a Number (round to nearest, ties to even, gradual
  underflow, overflow to the infinities), computed on integers only, so that the kernel
  evaluates it quickly. Negative zero is identified with zero: the script only uses numbers
  through truthiness, \<open>toFixed\<close>, \<open>toString\<close> and \<open>Math.floor\<close>, where the two zeros
  behave alike.
\<close>

datatype jsnum = Fin int int | NaN | PosInf | NegInf

definition num_val :: "int \<Rightarrow> int \<Rightarrow> rat" where
  "num_val m e = of_int m * 2 powi e"

subsection \<open>Binary magnitudes\<close>

fun nat_log2 :: "nat \<Rightarrow> nat" where
  "nat_log2 n = (if n < 2 then 0 else Suc (nat_log2 (n div 2)))"

declare nat_log2.simps [simp del]

text \<open>\<open>floor_log2_ratio a q\<close> is the exponent \<open>k\<close> with \<open>2 powi k \<le> a / q < 2 powi (k + 1)\<close>
  for \<open>a, q \<ge> 1\<close>: the binary lengths of \<open>a\<close> and \<open>q\<close> fix it up to one.\<close>

definition floor_log2_ratio :: "nat \<Rightarrow> nat \<Rightarrow> int" where
  "floor_log2_ratio a q =
     (let k = int (nat_log2 a) - int (nat_log2 q)
      in if (if 0 \<le> k then q * 2 ^ nat k \<le> a else q \<le> a * 2 ^ nat (- k)) then k else k - 1)"

text \<open>\<open>a / b\<close> rounded to the nearest integer, ties to the even one (roundTiesToEven).\<close>

definition div_half_even :: "nat \<Rightarrow> nat \<Rightarrow> nat" where
  "div_half_even a b =
     (let f = a div b; r = a mod b
      in if 2 * r < b then f else if b < 2 * r then f + 1 else if even f then f else f + 1)"

text \<open>Strip the factors two of a significand into the exponent.\<close>

fun normalize :: "nat \<Rightarrow> int \<Rightarrow> nat \<times> int" where
  "normalize m e =
     (if m = 0 then (0, 0) else if even m then normalize (m div 2) (e + 1) else (m, e))"

declare normalize.simps [simp del]

subsection \<open>Rounding to a double\<close>

text \<open>
  \<open>round_ratio neg a q\<close> is the Number value for \<open>a / q\<close> (negated when \<open>neg\<close>), with
  \<open>q \<ge> 1\<close>. The quantum is \<open>2 powi e\<close> with \<open>e = max (\<lfloor>log2 (a/q)\<rfloor> - 52) (-1074)\<close>:
  53 significant bits for normal numbers, the fixed quantum \<open>2 powi -1074\<close> below them.
  A result of at least \<open>2 ^ 1024\<close> overflows to an infinity.
\<close>

definition round_ratio :: "bool \<Rightarrow> nat \<Rightarrow> nat \<Rightarrow> jsnum" where
  "round_ratio neg a q =
     (if a = 0 then Fin 0 0
      else let e = max (floor_log2_ratio a q - 52) (-1074);
               m = (if 0 \<le> e then div_half_even a (q * 2 ^ nat e)
                    else div_half_even (a * 2 ^ nat (- e)) q)
           in if m = 0 then Fin 0 0
              else if 1024 \<le> e + int (nat_log2 m) then (if neg then NegInf else PosInf)
              else (case normalize m e of (m', e') \<Rightarrow> Fin (if neg then - int m' else int m') e'))"

text \<open>The same rounding for a rational argument, the reference form of the theorems.\<close>

definition round_double :: "rat \<Rightarrow> jsnum" where
  "round_double x =
     (case quotient_of x of (p, q) \<Rightarrow> round_ratio (p < 0) (nat \<bar>p\<bar>) (nat q))"

text \<open>A finite Number in normal form, and the doubles: values rounding leaves unchanged.\<close>

fun is_number_value :: "jsnum \<Rightarrow> bool" where
  "is_number_value (Fin m e) = (round_ratio (m < 0) (nat \<bar>m\<bar> * (if 0 \<le> e then 2 ^ nat e else 1))
                                  (if 0 \<le> e then 1 else 2 ^ nat (- e)) = Fin m e)"
| "is_number_value _ = True"

subsection \<open>Arithmetic used by the script\<close>

text \<open>Sign of a Number, and multiplication (ECMAScript Number::multiply).\<close>

fun js_mul :: "jsnum \<Rightarrow> jsnum \<Rightarrow> jsnum" where
  "js_mul (Fin a e) (Fin b f) =
     round_ratio (a * b < 0) (nat \<bar>a * b\<bar> * (if 0 \<le> e + f then 2 ^ nat (e + f) else 1))
                             (if 0 \<le> e + f then 1 else 2 ^ nat (- (e + f)))"
| "js_mul NaN _ = NaN"
| "js_mul _ NaN = NaN"
| "js_mul (Fin a e) PosInf = (if a = 0 then NaN else if 0 < a then PosInf else NegInf)"
| "js_mul (Fin a e) NegInf = (if a = 0 then NaN else if 0 < a then NegInf else PosInf)"
| "js_mul PosInf (Fin b f) = (if b = 0 then NaN else if 0 < b then PosInf else NegInf)"
| "js_mul NegInf (Fin b f) = (if b = 0 then NaN else if 0 < b then NegInf else PosInf)"
| "js_mul PosInf PosInf = PosInf"
| "js_mul PosInf NegInf = NegInf"
| "js_mul NegInf PosInf = NegInf"
| "js_mul NegInf NegInf = PosInf"

text \<open>\<open>Math.floor\<close>: a double with a non-negative exponent is already an integer.\<close>

fun js_floor :: "jsnum \<Rightarrow> jsnum" where
  "js_floor (Fin m e) =
     (if 0 \<le> e then Fin m e
      else let f = m div 2 ^ nat (- e)
           in case normalize (nat \<bar>f\<bar>) 0 of (m', e') \<Rightarrow> Fin (if f < 0 then - int m' else int m') e')"
| "js_floor x = x"

text \<open>ToBoolean of a Number: zero and NaN are falsy.\<close>

fun num_truthy :: "jsnum \<Rightarrow> bool" where
  "num_truthy (Fin m e) = (m \<noteq> 0)"
| "num_truthy NaN = False"
| "num_truthy _ = True"

text \<open>A Number from a non-negative integer (the literals of the script).\<close>

definition num_of_nat :: "nat \<Rightarrow> jsnum" where
  "num_of_nat n = round_ratio False n 1"

subsection \<open>Evaluation on numerals\<close>

text \<open>The recursive functions unfold on binary numerals only, so that the simplifier
  evaluates closed terms without unfolding them on a variable.\<close>

lemma nat_log2_eval [js_eval]:
  "nat_log2 0 = 0"
  "nat_log2 1 = 0"
  "nat_log2 (Suc 0) = 0"
  "nat_log2 (numeral (Num.Bit0 k)) = nat_log2 (numeral k) + 1"
  "nat_log2 (numeral (Num.Bit1 k)) = nat_log2 (numeral k) + 1"
  by (subst nat_log2.simps, simp)+

lemma normalize_eval [js_eval]:
  "normalize 0 e = (0, 0)"
  "normalize 1 e = (1, e)"
  "normalize (Suc 0) e = (1, e)"
  "normalize (numeral (Num.Bit0 k)) e = normalize (numeral k) (e + 1)"
  "normalize (numeral (Num.Bit1 k)) e = (numeral (Num.Bit1 k), e)"
  by (subst normalize.simps, simp)+

declare floor_log2_ratio_def [js_eval] div_half_even_def [js_eval] round_ratio_def [js_eval]
  num_of_nat_def [js_eval] Let_def [js_eval]

end
