(* ===== verification/NumberFormat.thy ===== *)
theory NumberFormat
  imports JsNumber
begin

text \<open>
  Printing Numbers: ECMAScript Number::toString in radix 10 (used by template literals and
  string concatenation) and \<open>Number.prototype.toFixed\<close> (used by the table for prices).
  Both compute on the significand and exponent with integer arithmetic only.
\<close>

subsection \<open>Decimal digits\<close>

definition digit_char :: "nat \<Rightarrow> char" where
  "digit_char d = ''0123456789'' ! d"

fun nat_digits :: "nat \<Rightarrow> string" where
  "nat_digits n = (if n < 10 then [digit_char n] else nat_digits (n div 10) @ [digit_char (n mod 10)])"

declare nat_digits.simps [simp del]

text \<open>\<open>floor_log10_ratio p q\<close> is the \<open>d\<close> with \<open>10 powi d \<le> p / q < 10 powi (d + 1)\<close>,
  for \<open>p, q \<ge> 1\<close>.\<close>

definition floor_log10_ratio :: "nat \<Rightarrow> nat \<Rightarrow> int" where
  "floor_log10_ratio p q =
     (let d = int (length (nat_digits p)) - int (length (nat_digits q))
      in if (if 0 \<le> d then q * 10 ^ nat d \<le> p else q \<le> p * 10 ^ nat (- d)) then d else d - 1)"

text \<open>A positive value \<open>a * 2 powi e\<close> as a fraction \<open>P / Q\<close> of naturals, and
  \<open>s * 10 powi t\<close> likewise.\<close>

definition bin_frac :: "nat \<Rightarrow> int \<Rightarrow> nat \<times> nat" where
  "bin_frac a e = (if 0 \<le> e then (a * 2 ^ nat e, 1) else (a, 2 ^ nat (- e)))"

definition dec_frac :: "nat \<Rightarrow> int \<Rightarrow> nat \<times> nat" where
  "dec_frac s t = (if 0 \<le> t then (s * 10 ^ nat t, 1) else (s, 10 ^ nat (- t)))"

subsection \<open>Number::toString\<close>

text \<open>
  For a positive double \<open>x = a * 2 powi e\<close>, the decimal \<open>s * 10 powi (n - k)\<close> of the
  specification: \<open>k\<close> digits, \<open>k\<close> as small as possible, and among the \<open>k\<close>-digit
  decimals that round back to \<open>x\<close> the one closest to \<open>x\<close> (the even one on a tie).
  The \<open>k\<close>-digit decimals next to \<open>x\<close> are \<open>s0 * 10 powi t\<close> and
  \<open>(s0 + 1) * 10 powi t\<close>; a farther one rounds back only if the nearer one on its side
  does, so these two are the only candidates. \<open>dec_candidate\<close> returns the chosen
  \<open>(s, t)\<close> for one \<open>k\<close>, or None when no \<open>k\<close>-digit decimal rounds back.
\<close>

definition rounds_back :: "nat \<Rightarrow> int \<Rightarrow> nat \<Rightarrow> int \<Rightarrow> bool" where
  "rounds_back a e s t =
     (case dec_frac s t of (u, v) \<Rightarrow>
        round_ratio False u v = (case normalize a e of (a', e') \<Rightarrow> Fin (int a') e'))"

definition dec_candidate :: "nat \<Rightarrow> int \<Rightarrow> nat \<Rightarrow> (nat \<times> int) option" where
  "dec_candidate a e k =
     (case bin_frac a e of (P, Q) \<Rightarrow>
      let t = floor_log10_ratio P Q - int k + 1;
          (N, D) = (if 0 \<le> t then (P, Q * 10 ^ nat t) else (P * 10 ^ nat (- t), Q));
          s0 = N div D; r = N mod D;
          lo = rounds_back a e s0 t; hi = (r \<noteq> 0 \<and> rounds_back a e (s0 + 1) t);
          up = (if 2 * r < D then False else if D < 2 * r then True else odd s0)
      in if lo \<and> hi then Some (if up then (s0 + 1, t) else (s0, t))
         else if lo then Some (s0, t) else if hi then Some (s0 + 1, t) else None)"

text \<open>The nearest 17-digit decimal: seventeen significant digits identify every double.\<close>

definition dec_nearest :: "nat \<Rightarrow> int \<Rightarrow> nat \<Rightarrow> nat \<times> int" where
  "dec_nearest a e k =
     (case bin_frac a e of (P, Q) \<Rightarrow>
      let t = floor_log10_ratio P Q - int k + 1;
          (N, D) = (if 0 \<le> t then (P, Q * 10 ^ nat t) else (P * 10 ^ nat (- t), Q));
          s0 = N div D; r = N mod D
      in if 2 * r < D \<or> (2 * r = D \<and> even s0) then (s0, t) else (s0 + 1, t))"

text \<open>Try \<open>k = 1, 2, \<dots>\<close>; \<open>fuel\<close> more lengths remain before the 17-digit fallback.\<close>

fun shortest_decimal :: "nat \<Rightarrow> nat \<Rightarrow> nat \<Rightarrow> int \<Rightarrow> nat \<times> int" where
  "shortest_decimal 0 k a e = dec_nearest a e k"
| "shortest_decimal (Suc fuel) k a e =
     (case dec_candidate a e k of Some st \<Rightarrow> st | None \<Rightarrow> shortest_decimal fuel (Suc k) a e)"

text \<open>A carry out of the top digit (\<open>s = 10^k\<close>) is the \<open>k\<close>-digit decimal
  \<open>10^(k-1)\<close> one place up; \<open>trim_decimal\<close> takes the trailing zeros off.\<close>

fun trim_decimal :: "nat \<Rightarrow> int \<Rightarrow> nat \<times> int" where
  "trim_decimal s t = (if s \<noteq> 0 \<and> s mod 10 = 0 then trim_decimal (s div 10) (t + 1) else (s, t))"

declare trim_decimal.simps [simp del]

text \<open>Steps 6 to 10 of Number::toString: the digits \<open>ds\<close> of \<open>s\<close> and the decimal
  exponent \<open>n\<close>, with \<open>x = s * 10 powi (n - k)\<close> and \<open>k = length ds\<close>.\<close>

definition format_decimal :: "string \<Rightarrow> int \<Rightarrow> string" where
  "format_decimal ds n =
     (let k = int (length ds)
      in if k \<le> n \<and> n \<le> 21 then ds @ replicate (nat (n - k)) (CHR ''0'')
         else if 0 < n \<and> n \<le> 21 then take (nat n) ds @ ''.'' @ drop (nat n) ds
         else if -6 < n \<and> n \<le> 0 then ''0.'' @ replicate (nat (- n)) (CHR ''0'') @ ds
         else let x = n - 1;
                  es = (if 0 < x then ''+'' else ''-'') @ nat_digits (nat \<bar>x\<bar>)
              in if k = 1 then ds @ ''e'' @ es else [hd ds] @ ''.'' @ tl ds @ ''e'' @ es)"

definition pos_to_string :: "nat \<Rightarrow> int \<Rightarrow> string" where
  "pos_to_string a e =
     (case shortest_decimal 16 1 a e of (s, t) \<Rightarrow>
       case trim_decimal s t of (s', t') \<Rightarrow>
         format_decimal (nat_digits s') (t' + int (length (nat_digits s'))))"

definition num_to_string :: "jsnum \<Rightarrow> string" where
  "num_to_string x =
     (case x of
        NaN \<Rightarrow> ''NaN''
      | PosInf \<Rightarrow> ''Infinity''
      | NegInf \<Rightarrow> ''-Infinity''
      | Fin m e \<Rightarrow>
          if m = 0 then ''0''
          else if m < 0 then ''-'' @ pos_to_string (nat (- m)) e
          else pos_to_string (nat m) e)"

subsection \<open>Number.prototype.toFixed\<close>

text \<open>
  \<open>x.toFixed(f)\<close>: a non-finite \<open>x\<close> prints as by toString; a negative one prints
  \<open>-\<close> and its magnitude; a magnitude of at least \<open>10^21\<close> prints as by toString;
  otherwise \<open>n\<close> is the integer with \<open>n / 10^f - x\<close> closest to zero, the larger one on a
  tie, and its digits are printed with a point before the last \<open>f\<close>, padded with zeros on
  the left to at least \<open>f + 1\<close> digits.
\<close>

definition fixed_digits :: "nat \<Rightarrow> nat \<Rightarrow> string" where
  "fixed_digits f n =
     (let m = nat_digits n
      in if f = 0 then m
         else let m' = (if length m \<le> f then replicate (f + 1 - length m) (CHR ''0'') @ m else m);
                  k = length m'
              in take (k - f) m' @ ''.'' @ drop (k - f) m')"

definition to_fixed :: "nat \<Rightarrow> jsnum \<Rightarrow> string" where
  "to_fixed f x =
     (case x of
        Fin m e \<Rightarrow>
          let s = (if m < 0 then ''-'' else '''');
              a = nat \<bar>m\<bar>
          in case bin_frac a e of (P, Q) \<Rightarrow>
             if 10 ^ 21 * Q \<le> P then s @ num_to_string (Fin (int a) e)
             else let c = P * 10 ^ f;
                      n = c div Q + (if Q \<le> 2 * (c mod Q) then 1 else 0)
                  in s @ fixed_digits f n
      | _ \<Rightarrow> num_to_string x)"

definition decimal_chars :: "char set" where
  "decimal_chars = set ''0123456789''"

definition number_chars :: "char set" where
  "number_chars = set ''0123456789.-+e''"

subsection \<open>Evaluation on numerals\<close>

lemma shortest_decimal_eval [js_eval]:
  "shortest_decimal (numeral n) k a e =
     (case dec_candidate a e k of
        Some st \<Rightarrow> st
      | None \<Rightarrow> shortest_decimal (pred_numeral n) (Suc k) a e)"
  by (simp add: numeral_eq_Suc)

lemma nat_digits_eval [js_eval]:
  "nat_digits 0 = ''0''"
  "nat_digits 1 = ''1''"
  "nat_digits (Suc 0) = ''1''"
  "nat_digits (numeral k) =
     (if numeral k < (10::nat) then [digit_char (numeral k)]
      else nat_digits (numeral k div 10) @ [digit_char (numeral k mod 10)])"
  by (subst nat_digits.simps, simp add: digit_char_def)+

lemma trim_decimal_eval [js_eval]:
  "trim_decimal 0 t = (0, t)"
  "trim_decimal 1 t = (1, t)"
  "trim_decimal (Suc 0) t = (1, t)"
  "trim_decimal (numeral k) t =
     (if numeral k mod (10::nat) = 0 then trim_decimal (numeral k div 10) (t + 1) else (numeral k, t))"
  by (subst trim_decimal.simps, simp)+

declare digit_char_def [js_eval] rounds_back_def [js_eval] floor_log10_ratio_def [js_eval] bin_frac_def [js_eval]
  dec_frac_def [js_eval] dec_candidate_def [js_eval] dec_nearest_def [js_eval]
  format_decimal_def [js_eval] pos_to_string_def [js_eval]
  num_to_string_def [js_eval] fixed_digits_def [js_eval] to_fixed_def [js_eval]

subsection \<open>The characters of printed numbers\<close>

lemma digit_char_mem: "d < 10 \<Longrightarrow> digit_char d \<in> decimal_chars"
  unfolding digit_char_def decimal_chars_def by (rule nth_mem) simp

lemma nat_digits_chars: "set (nat_digits n) \<subseteq> decimal_chars"
proof (induction n rule: nat_digits.induct)
  case (1 n)
  then show ?case
    by (subst nat_digits.simps) (auto simp: digit_char_mem)
qed

lemma nat_digits_nonempty: "nat_digits n \<noteq> []"
  by (subst nat_digits.simps) simp

lemma decimal_number_chars: "decimal_chars \<subseteq> number_chars"
  by (auto simp: decimal_chars_def number_chars_def)

lemma fixed_digits_chars: "set (fixed_digits f n) \<subseteq> number_chars"
proof -
  have d: "set (nat_digits n) \<subseteq> number_chars"
    using nat_digits_chars decimal_number_chars by blast
  have z: "CHR ''0'' \<in> number_chars" and p: "CHR ''.'' \<in> number_chars"
    by (simp_all add: number_chars_def)
  show ?thesis
    unfolding fixed_digits_def Let_def
    using d z p set_take_subset set_drop_subset by (fastforce split: if_splits)
qed

lemma format_decimal_chars:
  assumes "set ds \<subseteq> decimal_chars" and "ds \<noteq> []"
  shows "set (format_decimal ds n) \<subseteq> number_chars"
proof -
  have d: "set ds \<subseteq> number_chars" using assms(1) decimal_number_chars by blast
  have hd: "hd ds \<in> number_chars" using d assms(2) hd_in_set by blast
  have tl: "set (tl ds) \<subseteq> number_chars" using d by (cases ds) auto
  have x: "set (nat_digits m) \<subseteq> number_chars" for m
    using nat_digits_chars decimal_number_chars by blast
  have c: "CHR ''0'' \<in> number_chars" "CHR ''.'' \<in> number_chars" "CHR ''e'' \<in> number_chars"
    "CHR ''+'' \<in> number_chars" "CHR ''-'' \<in> number_chars"
    by (simp_all add: number_chars_def)
  show ?thesis
    unfolding format_decimal_def Let_def
    using d hd tl x c by (auto split: if_splits dest: in_set_takeD in_set_dropD)
qed

lemma pos_to_string_chars: "set (pos_to_string a e) \<subseteq> number_chars"
proof -
  obtain s t where st: "shortest_decimal 16 1 a e = (s, t)" by fastforce
  obtain s' t' where st': "trim_decimal s t = (s', t')" by fastforce
  have "set (format_decimal (nat_digits s') (t' + int (length (nat_digits s')))) \<subseteq> number_chars"
    by (rule format_decimal_chars [OF nat_digits_chars nat_digits_nonempty])
  with st st' show ?thesis by (simp add: pos_to_string_def)
qed

lemma minus_zero_number_chars: "CHR ''-'' \<in> number_chars" "CHR ''0'' \<in> number_chars"
  by (simp_all add: number_chars_def)

lemma num_to_string_Fin_chars: "set (num_to_string (Fin m e)) \<subseteq> number_chars"
  using minus_zero_number_chars
  by (auto simp: num_to_string_def dest: pos_to_string_chars [THEN subsetD])

lemma to_fixed_Fin_chars: "set (to_fixed f (Fin m e)) \<subseteq> number_chars"
  using minus_zero_number_chars
  by (auto simp: to_fixed_def Let_def split: prod.splits
      dest: fixed_digits_chars [THEN subsetD] num_to_string_Fin_chars [THEN subsetD])

lemma to_fixed_NaN_iff: "to_fixed f x = ''NaN'' \<longleftrightarrow> x = NaN"
proof (cases x)
  case (Fin m e)
  have "CHR ''N'' \<notin> number_chars" by (simp add: number_chars_def)
  with to_fixed_Fin_chars [of f m e] have "to_fixed f (Fin m e) \<noteq> ''NaN''" by auto
  with Fin show ?thesis by simp
qed (simp_all add: to_fixed_def num_to_string_def)

end
