(* ===== verification/ParseFloat.thy ===== *)
theory ParseFloat
  imports JsNumber
begin

text \<open>
  The global \<open>parseFloat\<close> on a string (ECMAScript 19.2.4): leading white space is
  skipped, the longest prefix that is a StrDecimalLiteral is read, and its mathematical
  value is rounded to a Number; with no such prefix the result is NaN. The literal
  grammar is
  \<^verbatim>\<open>StrDecimalLiteral ::= [+|-] ( Infinity | Digits . [Digits] [Exp] | . Digits [Exp]
                                  | Digits [Exp] )
  Exp ::= (e|E) [+|-] Digits\<close>
  and the greedy scan below reads the longest such prefix.
\<close>

text \<open>StrWhiteSpaceChar restricted to code units below 256: TAB, LF, VT, FF, CR, SPACE and
  NO-BREAK SPACE.\<close>

definition is_str_ws :: "char \<Rightarrow> bool" where
  "is_str_ws c \<longleftrightarrow> of_char c \<in> {9, 10, 11, 12, 13, 32, 160 :: nat}"

definition is_dec_digit :: "char \<Rightarrow> bool" where
  "is_dec_digit c \<longleftrightarrow> 48 \<le> (of_char c :: nat) \<and> (of_char c :: nat) \<le> 57"

definition digits_value :: "string \<Rightarrow> nat" where
  "digits_value ds = foldl (\<lambda>n c. 10 * n + (of_char c - 48)) 0 ds"

text \<open>The value of a decimal literal: \<open>DecFinite n x\<close> is \<open>n * 10 powi x\<close>.\<close>

datatype decimal_literal = DecInfinity | DecFinite nat int

text \<open>An optional ExponentPart: its value and the rest of the input, or exponent 0 and
  the input unchanged when no complete ExponentPart follows.\<close>

definition scan_exponent :: "string \<Rightarrow> int \<times> string" where
  "scan_exponent s =
     (case s of
        [] \<Rightarrow> (0, [])
      | c # r \<Rightarrow>
          if c = CHR ''e'' \<or> c = CHR ''E'' then
            let (neg, r') = (case r of
                               d # r'' \<Rightarrow> if d = CHR ''+'' then (False, r'')
                                          else if d = CHR ''-'' then (True, r'') else (False, r)
                             | [] \<Rightarrow> (False, r));
                ds = takeWhile is_dec_digit r'
            in if ds = [] then (0, s)
               else (if neg then - int (digits_value ds) else int (digits_value ds),
                     dropWhile is_dec_digit r')
          else (0, s))"

definition finish_literal :: "string \<Rightarrow> string \<Rightarrow> string \<Rightarrow> decimal_literal \<times> string" where
  "finish_literal ip fp rest =
     (case scan_exponent rest of
        (x, rest') \<Rightarrow> (DecFinite (digits_value (ip @ fp)) (x - int (length fp)), rest'))"

text \<open>StrUnsignedDecimalLiteral: the longest prefix and the rest of the input.\<close>

definition scan_unsigned :: "string \<Rightarrow> (decimal_literal \<times> string) option" where
  "scan_unsigned s =
     (if take 8 s = ''Infinity'' then Some (DecInfinity, drop 8 s)
      else let ip = takeWhile is_dec_digit s; s1 = dropWhile is_dec_digit s
           in case s1 of
                [] \<Rightarrow> if ip = [] then None else Some (finish_literal ip [] [])
              | c # r \<Rightarrow>
                  if c = CHR ''.'' then
                    let fp = takeWhile is_dec_digit r; s2 = dropWhile is_dec_digit r
                    in if ip = [] \<and> fp = [] then None else Some (finish_literal ip fp s2)
                  else if ip = [] then None else Some (finish_literal ip [] s1))"

text \<open>StrDecimalLiteral: an optional sign (\<open>True\<close> for minus) before the unsigned literal.\<close>

definition scan_decimal :: "string \<Rightarrow> (bool \<times> decimal_literal \<times> string) option" where
  "scan_decimal s =
     (case s of
        c # r \<Rightarrow>
          if c = CHR ''+'' then map_option (\<lambda>lr. (False, lr)) (scan_unsigned r)
          else if c = CHR ''-'' then map_option (\<lambda>lr. (True, lr)) (scan_unsigned r)
          else map_option (\<lambda>lr. (False, lr)) (scan_unsigned s)
      | [] \<Rightarrow> None)"

text \<open>The Number value of a literal; a zero value gives zero (the sign of a negative zero
  is not kept, see \<open>JsNumber\<close>).\<close>

fun literal_value :: "bool \<Rightarrow> decimal_literal \<Rightarrow> jsnum" where
  "literal_value neg DecInfinity = (if neg then NegInf else PosInf)"
| "literal_value neg (DecFinite n x) =
     (if 0 \<le> x then round_ratio neg (n * 10 ^ nat x) 1 else round_ratio neg n (10 ^ nat (- x)))"

definition parse_float :: "string \<Rightarrow> jsnum" where
  "parse_float str =
     (case scan_decimal (dropWhile is_str_ws str) of
        None \<Rightarrow> NaN
      | Some (neg, lit, _) \<Rightarrow> literal_value neg lit)"

declare is_str_ws_def [js_eval] is_dec_digit_def [js_eval] digits_value_def [js_eval]
  scan_exponent_def [js_eval] finish_literal_def [js_eval] scan_unsigned_def [js_eval]
  scan_decimal_def [js_eval] parse_float_def [js_eval]

end
