(* ===== verification/JsValue.thy ===== *)
theory JsValue
  imports NumberFormat ParseFloat
begin

text \<open>
  The JavaScript values the script handles: the results of \<open>response.json()\<close> (JSON
  values, all of whose numbers are finite), \<open>undefined\<close> from reading a missing
  property, and strings and numbers built by the script. Objects are association lists of
  their own properties in the order \<open>JSON.parse\<close> creates them; a key that occurs twice
  holds the value of its last occurrence. Exceptions are values of \<open>js_error\<close>.
\<close>

datatype jsval =
    JUndefined
  | JNull
  | JBool bool
  | JNumber jsnum
  | JString string
  | JArray "jsval list"
  | JObject "(string \<times> jsval) list"

datatype js_error = TypeError | SyntaxError | StorageError | NetworkError

subsection \<open>ToBoolean and the \<open>||\<close> operator\<close>

fun truthy :: "jsval \<Rightarrow> bool" where
  "truthy JUndefined = False"
| "truthy JNull = False"
| "truthy (JBool b) = b"
| "truthy (JNumber n) = num_truthy n"
| "truthy (JString s) = (s \<noteq> [])"
| "truthy (JArray _) = True"
| "truthy (JObject _) = True"

definition js_or :: "jsval \<Rightarrow> jsval \<Rightarrow> jsval" where
  "js_or a b = (if truthy a then a else b)"

subsection \<open>Property access\<close>

text \<open>\<open>v.k\<close>: a TypeError on \<open>undefined\<close> and \<open>null\<close>; an object's own property, or
  \<open>undefined\<close>. The keys the script reads (\<open>vendor\<close>, \<open>total\<close>, \<open>name\<close>, \<open>type\<close>)
  are not properties of the prototypes of booleans, numbers, strings, arrays or plain
  objects, so on those values they read \<open>undefined\<close>.\<close>

definition own_prop :: "(string \<times> jsval) list \<Rightarrow> string \<Rightarrow> jsval" where
  "own_prop fs k = (case map_of (rev fs) k of None \<Rightarrow> JUndefined | Some v \<Rightarrow> v)"

fun get_prop :: "jsval \<Rightarrow> string \<Rightarrow> js_error + jsval" where
  "get_prop JUndefined k = Inl TypeError"
| "get_prop JNull k = Inl TypeError"
| "get_prop (JObject fs) k = Inr (own_prop fs k)"
| "get_prop _ k = Inr JUndefined"

subsection \<open>ToString\<close>

text \<open>
  ToString as template literals and \<open>parseFloat\<close> apply it. An array prints as
  \<open>Array.prototype.join\<close> with commas, \<open>undefined\<close> and \<open>null\<close> elements as the
  empty string. A plain object prints as \<open>[object Object]\<close>, unless it has an own
  property \<open>toString\<close>: a JSON value is never callable, so OrdinaryToPrimitive skips it,
  the inherited \<open>valueOf\<close> returns the object itself, and a TypeError is thrown.
\<close>

fun js_to_string :: "jsval \<Rightarrow> js_error + string"
  and join_elements :: "jsval list \<Rightarrow> js_error + string list" where
  "js_to_string JUndefined = Inr ''undefined''"
| "js_to_string JNull = Inr ''null''"
| "js_to_string (JBool b) = Inr (if b then ''true'' else ''false'')"
| "js_to_string (JNumber n) = Inr (num_to_string n)"
| "js_to_string (JString s) = Inr s"
| "js_to_string (JArray vs) = sum_bind (join_elements vs) (\<lambda>ss. Inr (join_with '','' ss))"
| "js_to_string (JObject fs) =
     (if ''toString'' \<in> fst ` set fs then Inl TypeError else Inr ''[object Object]'')"
| "join_elements [] = Inr []"
| "join_elements (v # vs) =
     sum_bind (if v = JUndefined \<or> v = JNull then Inr [] else js_to_string v)
       (\<lambda>s. sum_bind (join_elements vs) (\<lambda>ss. Inr (s # ss)))"

text \<open>The global \<open>parseFloat\<close> on any value: ToString first.\<close>

definition js_parse_float :: "jsval \<Rightarrow> js_error + jsnum" where
  "js_parse_float v = sum_bind (js_to_string v) (\<lambda>s. Inr (parse_float s))"

subsection \<open>encodeURIComponent\<close>

text \<open>Every code unit but the unreserved ones (letters, digits and
  \<open>- _ . ! ~ * ' ( )\<close>) is written as the \<open>%XX\<close> escapes of its UTF-8 bytes; a code unit
  below 256 is one byte below 128 and two bytes above. Lone surrogates, the case that
  throws, are not code units of the model.\<close>

definition uri_unreserved :: "char \<Rightarrow> bool" where
  "uri_unreserved c \<longleftrightarrow>
     (let n = (of_char c :: nat)
      in (48 \<le> n \<and> n \<le> 57) \<or> (65 \<le> n \<and> n \<le> 90) \<or> (97 \<le> n \<and> n \<le> 122)
         \<or> n \<in> {45, 95, 46, 33, 126, 42, 39, 40, 41})"

definition hex_digit :: "nat \<Rightarrow> char" where
  "hex_digit d = ''0123456789ABCDEF'' ! d"

definition percent_byte :: "nat \<Rightarrow> string" where
  "percent_byte b = [CHR ''%'', hex_digit (b div 16), hex_digit (b mod 16)]"

definition encode_unit :: "char \<Rightarrow> string" where
  "encode_unit c =
     (if uri_unreserved c then [c]
      else let n = (of_char c :: nat)
           in if n < 128 then percent_byte n
              else percent_byte (192 + n div 64) @ percent_byte (128 + n mod 64))"

definition encode_uri_component :: "string \<Rightarrow> string" where
  "encode_uri_component s = concat (map encode_unit s)"

declare js_or_def [js_eval] own_prop_def [js_eval] js_parse_float_def [js_eval]
  uri_unreserved_def [js_eval] hex_digit_def [js_eval] percent_byte_def [js_eval]
  encode_unit_def [js_eval] encode_uri_component_def [js_eval]

end
