(* ===== verification/Render.thy ===== *)
theory Render
  imports JsValue
begin

text \<open>
  The two renderers of \<open>src/script.js\<close>: \<open>updateTable\<close> rebuilds the rows of the
  table body from the expense list, \<open>updateChart\<close> destroys the chart instance held in
  the module variable \<open>chart\<close> and constructs a new pie chart from the list. An expense
  record is \<open>{vendor, price}\<close>; \<open>vendor\<close> is whatever value \<open>addEntry\<close> stored
  (a string, or any truthy JSON value of the response), \<open>price\<close> a Number.
\<close>

record expense =
  vendor :: jsval
  price :: jsnum

subsection \<open>updateTable\<close>

text \<open>
  One row's \<open>innerHTML\<close>, the template literal of the source character for character:
  a line break, twelve spaces, the vendor cell, a line break, twelve spaces, the price cell
  (\<open>entry.price.toFixed(2)\<close>), a line break and eight spaces. The vendor is converted by
  ToString, which throws for an object with an own \<open>toString\<close> property.
\<close>

definition line_break :: string where
  "line_break = [CHR 0x0A]"

definition spaces :: "nat \<Rightarrow> string" where
  "spaces n = replicate n (CHR '' '')"

definition row_html :: "expense \<Rightarrow> js_error + string" where
  "row_html e =
     sum_bind (js_to_string (vendor e)) (\<lambda>v.
       Inr (line_break @ spaces 12 @ ''<td>'' @ v @ ''</td>'' @
            line_break @ spaces 12 @ ''<td>'' @ to_fixed 2 (price e) @ ''</td>'' @
            line_break @ spaces 8))"

text \<open>
  \<open>tableBody.innerHTML = ''\<close> and then \<open>data.forEach\<close> appending one row per entry: the
  rows appended before the first entry whose row throws, and the exception, which leaves
  \<open>updateTable\<close> (and so skips \<open>updateChart\<close> in \<open>addEntry\<close>).
\<close>

fun table_rows :: "expense list \<Rightarrow> string list \<times> js_error option" where
  "table_rows [] = ([], None)"
| "table_rows (e # es) =
     (case row_html e of
        Inl err \<Rightarrow> ([], Some err)
      | Inr r \<Rightarrow> (case table_rows es of (rs, err) \<Rightarrow> (r # rs, err)))"

text \<open>An entry whose row can be printed.\<close>

definition renderable :: "expense \<Rightarrow> bool" where
  "renderable e \<longleftrightarrow> \<not> isl (js_to_string (vendor e))"

subsection \<open>updateChart\<close>

text \<open>The configuration object passed to \<open>new Chart(ctx, ...)\<close>.\<close>

record chart_config =
  chart_type :: string
  chart_labels :: "jsval list"
  dataset_label :: string
  dataset_data :: "jsnum list"
  background_colors :: "string list"
  border_colors :: "string list"
  border_width :: nat

record chart =
  chart_id :: nat
  chart_cfg :: chart_config

definition palette_background :: "string list" where
  "palette_background =
     [''rgba(255, 99, 132, 0.2)'', ''rgba(54, 162, 235, 0.2)'', ''rgba(255, 206, 86, 0.2)'',
      ''rgba(75, 192, 192, 0.2)'', ''rgba(153, 102, 255, 0.2)'']"

definition palette_border :: "string list" where
  "palette_border =
     [''rgba(255, 99, 132, 1)'', ''rgba(54, 162, 235, 1)'', ''rgba(255, 206, 86, 1)'',
      ''rgba(75, 192, 192, 1)'', ''rgba(153, 102, 255, 1)'']"

definition chart_config_of :: "expense list \<Rightarrow> chart_config" where
  "chart_config_of es =
     \<lparr>chart_type = ''pie'', chart_labels = map vendor es, dataset_label = ''Expenses'',
      dataset_data = map price es, background_colors = palette_background,
      border_colors = palette_border, border_width = 1\<rparr>"

text \<open>
  The canvas side of the page: the module variable \<open>chart\<close> (\<open>None\<close> while it is
  \<open>undefined\<close>), the chart instances constructed on the canvas and not destroyed, in
  construction order, and the identity the next instance gets.
\<close>

record canvas =
  chart_var :: "chart option"
  live_charts :: "chart list"
  next_chart :: nat

definition init_canvas :: canvas where
  "init_canvas = \<lparr>chart_var = None, live_charts = [], next_chart = 0\<rparr>"

text \<open>\<open>chart.destroy()\<close> removes the instance from the canvas.\<close>

definition destroy_chart :: "chart \<Rightarrow> canvas \<Rightarrow> canvas" where
  "destroy_chart ch c = c\<lparr>live_charts := filter (\<lambda>x. chart_id x \<noteq> chart_id ch) (live_charts c)\<rparr>"

text \<open>\<open>new Chart(ctx, config)\<close> draws a new instance on the canvas.\<close>

definition new_chart :: "chart_config \<Rightarrow> canvas \<Rightarrow> chart \<times> canvas" where
  "new_chart cfg c =
     (let ch = \<lparr>chart_id = next_chart c, chart_cfg = cfg\<rparr>
      in (ch, c\<lparr>live_charts := live_charts c @ [ch], next_chart := Suc (next_chart c)\<rparr>))"

definition update_chart :: "expense list \<Rightarrow> canvas \<Rightarrow> canvas" where
  "update_chart es c =
     (let c1 = (case chart_var c of None \<Rightarrow> c | Some ch \<Rightarrow> destroy_chart ch c);
          (ch, c2) = new_chart (chart_config_of es) c1
      in c2\<lparr>chart_var := Some ch\<rparr>)"

text \<open>Chart.js reads an indexable option cyclically: slice \<open>i\<close> gets colour \<open>i mod 5\<close>.\<close>

definition slice_color :: "chart_config \<Rightarrow> nat \<Rightarrow> string" where
  "slice_color cfg i = background_colors cfg ! (i mod length (background_colors cfg))"

declare line_break_def [js_eval] spaces_def [js_eval] row_html_def [js_eval]
  renderable_def [js_eval] palette_background_def [js_eval] palette_border_def [js_eval]
  chart_config_of_def [js_eval]

text \<open>The canvas invariant: exactly the instance the variable holds is alive, and every
  identity is below the counter.\<close>

definition canvas_ok :: "canvas \<Rightarrow> bool" where
  "canvas_ok c \<longleftrightarrow>
     live_charts c = (case chart_var c of None \<Rightarrow> [] | Some ch \<Rightarrow> [ch]) \<and>
     (\<forall>ch. chart_var c = Some ch \<longrightarrow> chart_id ch < next_chart c)"

subsection \<open>Properties of the renderers\<close>

text \<open>The rows are those of the longest renderable prefix, and the exception is
  reported exactly when some entry cannot be printed.\<close>

lemma row_html_Inl: "row_html e = Inl err \<Longrightarrow> \<not> renderable e"
  by (cases "js_to_string (vendor e)") (simp_all add: row_html_def renderable_def)

lemma row_html_Inr: "row_html e = Inr r \<Longrightarrow> renderable e"
  by (cases "js_to_string (vendor e)") (simp_all add: row_html_def renderable_def)

declare table_rows.simps [js_eval]
declare table_rows.simps(2) [simp del]

lemma table_rows_Cons_Inl [simp]: "row_html e = Inl err \<Longrightarrow> table_rows (e # es) = ([], Some err)"
  by (simp add: table_rows.simps(2))

lemma table_rows_Cons_Inr [simp]:
  "row_html e = Inr r \<Longrightarrow> table_rows (e # es) = (r # fst (table_rows es), snd (table_rows es))"
  by (simp add: table_rows.simps(2) split: prod.split)

lemma table_rows_prefix:
  "fst (table_rows es) = map (projr \<circ> row_html) (takeWhile renderable es)"
proof (induction es)
  case Nil
  then show ?case by simp
next
  case (Cons e es)
  show ?case
  proof (cases "row_html e")
    case (Inl err)
    then show ?thesis by (simp add: row_html_Inl)
  next
    case (Inr r)
    with Cons.IH show ?thesis by (simp add: row_html_Inr)
  qed
qed

lemma table_rows_error:
  "snd (table_rows es) = None \<longleftrightarrow> list_all renderable es"
proof (induction es)
  case Nil
  then show ?case by simp
next
  case (Cons e es)
  show ?case
  proof (cases "row_html e")
    case (Inl err)
    then show ?thesis by (simp add: row_html_Inl)
  next
    case (Inr r)
    with Cons.IH show ?thesis by (simp add: row_html_Inr)
  qed
qed

lemma table_rows_length:
  "length (fst (table_rows es)) = length (takeWhile renderable es)"
  by (simp add: table_rows_prefix)

lemma table_rows_all:
  assumes "list_all renderable es"
  shows "length (fst (table_rows es)) = length es"
proof -
  from assms have eq: "takeWhile renderable es = es"
    by (simp add: list_all_iff)
  show ?thesis unfolding table_rows_length eq ..
qed

lemma update_chart_var:
  "chart_var (update_chart es c) = Some \<lparr>chart_id = next_chart c, chart_cfg = chart_config_of es\<rparr>"
  by (simp add: update_chart_def new_chart_def destroy_chart_def Let_def split: option.splits)

lemma update_chart_next: "next_chart (update_chart es c) = Suc (next_chart c)"
  by (simp add: update_chart_def new_chart_def destroy_chart_def Let_def split: option.splits)

lemma canvas_ok_init: "canvas_ok init_canvas"
  by (simp add: canvas_ok_def init_canvas_def)

lemma update_chart_live:
  "canvas_ok c \<Longrightarrow> live_charts (update_chart es c) = [the (chart_var (update_chart es c))]"
  by (auto simp: canvas_ok_def update_chart_def new_chart_def destroy_chart_def Let_def
      split: option.splits)

lemma update_chart_ok: "canvas_ok c \<Longrightarrow> canvas_ok (update_chart es c)"
  using update_chart_live [of c es]
  by (simp add: canvas_ok_def update_chart_var update_chart_next)

end
