(* ===== verification/Receipt.thy ===== *)
theory Receipt
  imports Render
begin

text \<open>
  The upload pipeline of \<open>src/script.js\<close>: \<open>addEntry(file)\<close> and
  \<open>fetchReceiptDetails(fileKey)\<close>, over the module state of the page. Both are
  \<open>async\<close>: each \<open>await\<close> suspends the call until the awaited promise settles, so a
  call is modelled as its synchronous prefix (\<open>add_entry_call\<close>) and one continuation
  per \<open>await\<close> (\<open>resume\<close>), resumed with the settlement the environment delivers. The
  object store and the receipt API are outside the program: what the code sends them is
  recorded in the page, what they answer is the settlement.
\<close>

subsection \<open>Arguments, requests and the page\<close>

record file_handle =
  file_name :: string
  file_type :: string
  file_bytes :: string

text \<open>The argument of \<open>addEntry\<close>: a \<open>File\<close>, or the string the event handlers pass.\<close>

datatype entry_arg = FileArg file_handle | StrArg string

text \<open>\<open>file.name\<close> and \<open>file.type\<close>: a string primitive has neither property.\<close>

fun arg_name :: "entry_arg \<Rightarrow> jsval" where
  "arg_name (FileArg f) = JString (file_name f)"
| "arg_name (StrArg s) = JUndefined"

fun arg_type :: "entry_arg \<Rightarrow> jsval" where
  "arg_type (FileArg f) = JString (file_type f)"
| "arg_type (StrArg s) = JUndefined"

datatype upload_body = BodyFile file_handle | BodyString string

fun arg_body :: "entry_arg \<Rightarrow> upload_body" where
  "arg_body (FileArg f) = BodyFile f"
| "arg_body (StrArg s) = BodyString s"

text \<open>\<open>Storage.put(fileKey, file, { contentType: file.type })\<close>.\<close>

record put_request =
  put_key :: string
  put_body :: upload_body
  put_content_type :: jsval

datatype console_msg =
    LogUploaded string
  | LogDetails jsval
  | ErrFetchDetails js_error
  | ErrUploading js_error

text \<open>
  The page: \<open>data\<close>, the rows of the table body, the canvas with the module variable
  \<open>chart\<close>, the console, the \<open>dragging\<close> class of the drop area; and, on the other
  side of the network, the \<open>Storage.put\<close> calls made, the bucket they fill and the
  URLs fetched.
\<close>

record page =
  data :: "expense list"
  table :: "string list"
  canvas :: canvas
  console :: "console_msg list"
  dragging :: bool
  puts :: "put_request list"
  bucket :: "string \<rightharpoonup> put_request"
  requests :: "string list"

definition init_page :: page where
  "init_page =
     \<lparr>data = [], table = [], canvas = init_canvas, console = [], dragging = False,
      puts = [], bucket = Map.empty, requests = []\<rparr>"

definition log :: "console_msg \<Rightarrow> page \<Rightarrow> page" where
  "log m p = p\<lparr>console := console p @ [m]\<rparr>"

subsection \<open>fetchReceiptDetails\<close>

definition api_url :: string where
  "api_url = ''https://4rz5bax45h.execute-api.us-east-1.amazonaws.com''"

definition receipt_url :: "string \<Rightarrow> string" where
  "receipt_url k = api_url @ ''?fileKey='' @ encode_uri_component k"

text \<open>The \<open>return\<close> of the \<open>try\<close> block: \<open>result.vendor\<close>, then
  \<open>parseFloat(result.total)\<close>; reading a property of \<open>null\<close> or converting an object
  with an own \<open>toString\<close> throws.\<close>

definition details_of_result :: "jsval \<Rightarrow> js_error + jsval \<times> jsnum" where
  "details_of_result r =
     sum_bind (get_prop r ''vendor'') (\<lambda>v.
     sum_bind (get_prop r ''total'') (\<lambda>t.
     sum_bind (js_parse_float t) (\<lambda>n. Inr (v, n))))"

text \<open>The value the \<open>catch\<close> block returns.\<close>

definition fallback_details :: "jsval \<times> jsnum" where
  "fallback_details = (JString ''Unknown'', Fin 0 0)"

text \<open>The synchronous prefix of \<open>fetchReceiptDetails(fileKey)\<close>: the request is sent.\<close>

definition fetch_call :: "string \<Rightarrow> page \<Rightarrow> page" where
  "fetch_call k p = p\<lparr>requests := requests p @ [receipt_url k]\<rparr>"

subsection \<open>addEntry\<close>

text \<open>\<open>`receipts/${file.name}`\<close>: ToString of the name, which for a string argument is
  \<open>undefined\<close>.\<close>

definition file_key :: "entry_arg \<Rightarrow> js_error + string" where
  "file_key a = sum_bind (js_to_string (arg_name a)) (\<lambda>n. Inr (''receipts/'' @ n))"

text \<open>\<open>x || 0\<close> on a Number.\<close>

definition num_or :: "jsnum \<Rightarrow> jsnum \<Rightarrow> jsnum" where
  "num_or x d = (if num_truthy x then x else d)"

definition make_expense :: "jsval \<times> jsnum \<Rightarrow> expense" where
  "make_expense d =
     \<lparr>vendor = js_or (fst d) (JString ''Unknown Vendor''), price = num_or (snd d) (Fin 0 0)\<rparr>"

text \<open>
  The rest of \<open>addEntry\<close> once \<open>fetchReceiptDetails\<close> has returned: \<open>data.push\<close>,
  \<open>updateTable()\<close>, \<open>updateChart()\<close>. An exception of \<open>updateTable\<close> leaves the rows
  appended so far, skips \<open>updateChart\<close> and is logged by the \<open>catch\<close> of
  \<open>addEntry\<close>.
\<close>

definition finish_entry :: "jsval \<times> jsnum \<Rightarrow> page \<Rightarrow> page" where
  "finish_entry d p =
     (let p1 = p\<lparr>data := data p @ [make_expense d]\<rparr>;
          (rows, err) = table_rows (data p1);
          p2 = p1\<lparr>table := rows\<rparr>
      in case err of
           None \<Rightarrow> p2\<lparr>canvas := update_chart (data p2) (canvas p2)\<rparr>
         | Some x \<Rightarrow> log (ErrUploading x) p2)"

text \<open>
  A suspended call, at one of its three \<open>await\<close>s: \<open>Storage.put\<close> in \<open>addEntry\<close>
  (with the request in flight), \<open>fetch\<close> and \<open>response.json()\<close> in
  \<open>fetchReceiptDetails\<close>. The await of \<open>fetchReceiptDetails\<close>'s own promise in
  \<open>addEntry\<close> resumes in the same turn of the event loop as the \<open>return\<close> or
  \<open>catch\<close> that settles it, so it is not a suspension point of its own.
\<close>

datatype task = AwaitPut string put_request | AwaitFetch string | AwaitJson string

datatype settlement =
    PutResolved
  | PutRejected js_error
  | FetchResolved
  | FetchRejected js_error
  | JsonResolved jsval
  | JsonRejected js_error

text \<open>\<open>addEntry(a)\<close> up to \<open>await Storage.put\<close>; the key cannot throw for the
  arguments of the model, but the \<open>try\<close> would catch it.\<close>

definition add_entry_call :: "entry_arg \<Rightarrow> page \<Rightarrow> page \<times> task option" where
  "add_entry_call a p =
     (case file_key a of
        Inl e \<Rightarrow> (log (ErrUploading e) p, None)
      | Inr k \<Rightarrow>
          let req = \<lparr>put_key = k, put_body = arg_body a, put_content_type = arg_type a\<rparr>
          in (p\<lparr>puts := puts p @ [req]\<rparr>, Some (AwaitPut k req)))"

text \<open>
  Resuming a suspended call with the settlement of the promise it awaits: the new page
  and the next suspension, or \<open>None\<close> when the call has finished. A settlement of
  another kind of promise does not apply (\<open>None\<close> outside).
\<close>

fun resume :: "task \<Rightarrow> settlement \<Rightarrow> page \<Rightarrow> (page \<times> task option) option" where
  "resume (AwaitPut k req) PutResolved p =
     Some (fetch_call k (log (LogUploaded k) (p\<lparr>bucket := (bucket p)(k \<mapsto> req)\<rparr>)), Some (AwaitFetch k))"
| "resume (AwaitPut k req) (PutRejected e) p = Some (log (ErrUploading e) p, None)"
| "resume (AwaitFetch k) FetchResolved p = Some (p, Some (AwaitJson k))"
| "resume (AwaitFetch k) (FetchRejected e) p =
     Some (finish_entry fallback_details (log (ErrFetchDetails e) p), None)"
| "resume (AwaitJson k) (JsonResolved r) p =
     Some (case details_of_result r of
             Inl e \<Rightarrow> finish_entry fallback_details (log (ErrFetchDetails e) (log (LogDetails r) p))
           | Inr d \<Rightarrow> finish_entry d (log (LogDetails r) p), None)"
| "resume (AwaitJson k) (JsonRejected e) p =
     Some (finish_entry fallback_details (log (ErrFetchDetails e) p), None)"
| "resume _ _ _ = None"

text \<open>One call of \<open>addEntry\<close> run to its end with the settlements of its awaits in
  order, as when no other call interleaves.\<close>

fun continue_entry :: "task option \<Rightarrow> settlement list \<Rightarrow> page \<Rightarrow> page option" where
  "continue_entry None [] p = Some p"
| "continue_entry None (s # ss) p = None"
| "continue_entry (Some t) [] p = None"
| "continue_entry (Some t) (s # ss) p =
     (case resume t s p of None \<Rightarrow> None | Some (p', t') \<Rightarrow> continue_entry t' ss p')"

definition add_entry :: "entry_arg \<Rightarrow> settlement list \<Rightarrow> page \<Rightarrow> page option" where
  "add_entry a ss p = (case add_entry_call a p of (p', t) \<Rightarrow> continue_entry t ss p')"

declare api_url_def [js_eval] receipt_url_def [js_eval] details_of_result_def [js_eval]
  fallback_details_def [js_eval] fetch_call_def [js_eval] file_key_def [js_eval]
  num_or_def [js_eval] make_expense_def [js_eval] finish_entry_def [js_eval]
  add_entry_call_def [js_eval] add_entry_def [js_eval] log_def [js_eval] init_page_def [js_eval]

text \<open>
  What the page shows: the table holds the rows of the longest printable prefix of
  \<open>data\<close>, and the chart variable holds a chart of that prefix, or is unset when the
  prefix is empty; exactly that chart is alive on the canvas.
\<close>

definition chart_matches :: "expense list \<Rightarrow> canvas \<Rightarrow> bool" where
  "chart_matches es c \<longleftrightarrow>
     (case chart_var c of
        None \<Rightarrow> takeWhile renderable es = []
      | Some ch \<Rightarrow> chart_cfg ch = chart_config_of (takeWhile renderable es) \<and>
                   takeWhile renderable es \<noteq> [])"

definition render_ok :: "page \<Rightarrow> bool" where
  "render_ok p \<longleftrightarrow>
     table p = fst (table_rows (data p)) \<and> canvas_ok (canvas p) \<and> chart_matches (data p) (canvas p)"

subsection \<open>Properties of the pipeline\<close>

lemma log_fields [simp]:
  "data (log m p) = data p" "table (log m p) = table p" "canvas (log m p) = canvas p"
  "puts (log m p) = puts p" "bucket (log m p) = bucket p" "requests (log m p) = requests p"
  "dragging (log m p) = dragging p"
  by (simp_all add: log_def)

lemma fetch_call_fields [simp]:
  "data (fetch_call k p) = data p" "table (fetch_call k p) = table p"
  "canvas (fetch_call k p) = canvas p" "puts (fetch_call k p) = puts p"
  "bucket (fetch_call k p) = bucket p" "dragging (fetch_call k p) = dragging p"
  by (simp_all add: fetch_call_def)

text \<open>The key: the name of a file, and \<open>undefined\<close> for the strings the handlers pass.\<close>

lemma file_key_eq:
  "file_key a = Inr (''receipts/'' @ (case a of FileArg f \<Rightarrow> file_name f | StrArg s \<Rightarrow> ''undefined''))"
  by (cases a) (simp_all add: file_key_def)

lemma add_entry_call_eq:
  "add_entry_call a p =
     (let k = ''receipts/'' @ (case a of FileArg f \<Rightarrow> file_name f | StrArg s \<Rightarrow> ''undefined'');
          req = \<lparr>put_key = k, put_body = arg_body a, put_content_type = arg_type a\<rparr>
      in (p\<lparr>puts := puts p @ [req]\<rparr>, Some (AwaitPut k req)))"
  by (simp add: add_entry_call_def file_key_eq Let_def)

lemma make_expense_price: "price (make_expense d) \<noteq> NaN"
  by (cases "snd d") (simp_all add: make_expense_def num_or_def)

lemma finish_entry_fields [simp]:
  "data (finish_entry d p) = data p @ [make_expense d]"
  "table (finish_entry d p) = fst (table_rows (data p @ [make_expense d]))"
  "puts (finish_entry d p) = puts p" "bucket (finish_entry d p) = bucket p"
  "requests (finish_entry d p) = requests p" "dragging (finish_entry d p) = dragging p"
  by (simp_all add: finish_entry_def Let_def split: prod.splits option.splits)

lemma finish_entry_canvas:
  "canvas (finish_entry d p) =
     (if list_all renderable (data p @ [make_expense d])
      then update_chart (data p @ [make_expense d]) (canvas p) else canvas p)"
  using table_rows_error [of "data p @ [make_expense d]"]
  by (auto simp: finish_entry_def Let_def split: prod.splits option.splits)

lemma render_ok_init: "render_ok init_page"
  by (simp add: render_ok_def init_page_def canvas_ok_init) (simp add: chart_matches_def init_canvas_def)

lemma finish_entry_render_ok:
  assumes "render_ok p"
  shows "render_ok (finish_entry d p)"
proof (cases "list_all renderable (data p @ [make_expense d])")
  case True
  then have "takeWhile renderable (data p @ [make_expense d]) = data p @ [make_expense d]"
    by (rule takeWhile_all_eq)
  with True assms show ?thesis
    by (simp add: render_ok_def finish_entry_canvas update_chart_ok chart_matches_def
        update_chart_var)
next
  case False
  then have tw: "takeWhile renderable (data p @ [make_expense d]) = takeWhile renderable (data p)"
    by (rule takeWhile_snoc_not_all)
  from False have cv: "canvas (finish_entry d p) = canvas p"
    by (simp only: finish_entry_canvas if_False)
  from assms show ?thesis
    unfolding render_ok_def chart_matches_def finish_entry_fields(1,2) cv tw by simp
qed

lemma render_ok_cong:
  "data q = data p \<Longrightarrow> table q = table p \<Longrightarrow> canvas q = canvas p \<Longrightarrow> render_ok q = render_ok p"
  by (simp add: render_ok_def)

lemma render_ok_frame [simp]:
  "render_ok (log m p) = render_ok p"
  "render_ok (fetch_call k p) = render_ok p"
  "render_ok (p\<lparr>bucket := b\<rparr>) = render_ok p"
  "render_ok (p\<lparr>puts := rs\<rparr>) = render_ok p"
  "render_ok (p\<lparr>dragging := g\<rparr>) = render_ok p"
  by (simp_all add: render_ok_def)

text \<open>Each continuation keeps what the page shows consistent with \<open>data\<close>, only ever
  appends to \<open>data\<close>, and appends prices that are not NaN.\<close>

lemma resume_render_ok:
  "resume t s p = Some (p', t') \<Longrightarrow> render_ok p \<Longrightarrow> render_ok p'"
  by (cases t; cases s) (auto intro!: finish_entry_render_ok split: sum.splits)

lemma resume_data_prefix:
  "resume t s p = Some (p', t') \<Longrightarrow> prefix (data p) (data p')"
  by (cases t; cases s) (auto split: sum.splits)

lemma resume_prices:
  "resume t s p = Some (p', t') \<Longrightarrow> \<forall>e\<in>set (data p). price e \<noteq> NaN \<Longrightarrow>
   \<forall>e\<in>set (data p'). price e \<noteq> NaN"
  by (cases t; cases s) (auto simp: make_expense_price split: sum.splits)

end
