(* ===== verification/EventLoop.thy ===== *)
theory EventLoop
  imports Receipt
begin

text \<open>
  The entry points of \<open>src/script.js\<close> and the event loop that runs them: the
  \<open>change\<close> listener of the file input and the \<open>dragover\<close>, \<open>dragleave\<close> and
  \<open>drop\<close> listeners of the drop area, and the settlements of the promises the pending
  \<open>addEntry\<close> calls await. Each event is one turn of the event loop and runs to the next
  \<open>await\<close>, so the interleaving of concurrent calls is the order of the events; which
  pending call a network answer resumes is part of the event. The browser's drag and drop
  protocol is modelled as far as the handlers take part in it: a \<open>drop\<close> reaches the
  drop area only while the pointer is over it, it is delivered to the page's listener only
  if the last \<open>dragover\<close> was cancelled, and its default action (opening the dropped
  file) runs unless the listener cancels the \<open>drop\<close> itself.
\<close>

subsection \<open>The demo vendor and the listeners\<close>

text \<open>A value \<open>Math.random()\<close> can return: a double in \<open>[0, 1)\<close>.\<close>

fun random_ok :: "jsnum \<Rightarrow> bool" where
  "random_ok (Fin m e) =
     (is_number_value (Fin m e) \<and> 0 \<le> m \<and> (if 0 \<le> e then m = 0 else m < 2 ^ nat (- e)))"
| "random_ok _ = False"

text \<open>\<open>`Vendor ${Math.floor(Math.random() * 100)}`\<close>.\<close>

definition demo_vendor :: "jsnum \<Rightarrow> string" where
  "demo_vendor r = ''Vendor '' @ num_to_string (js_floor (js_mul r (num_of_nat 100)))"

text \<open>A file of the event's file list, with the two results of \<open>Math.random()\<close> its
  loop iteration draws (for the vendor, then for the unused price).\<close>

type_synonym picked = "file_handle \<times> jsnum \<times> jsnum"

definition picked_ok :: "picked \<Rightarrow> bool" where
  "picked_ok x \<longleftrightarrow> random_ok (fst (snd x)) \<and> random_ok (snd (snd x))"

text \<open>
  The loop body of both listeners, \<open>addEntry(vendor, price)\<close>: the call receives the
  vendor string as its \<open>file\<close> and ignores the price; the file of the iteration is not
  used. The suspended calls are returned in call order.
\<close>

fun spawn_entries :: "picked list \<Rightarrow> page \<Rightarrow> page \<times> task list" where
  "spawn_entries [] p = (p, [])"
| "spawn_entries ((f, r1, r2) # fs) p =
     (case add_entry_call (StrArg (demo_vendor r1)) p of
        (p1, t) \<Rightarrow>
          (case spawn_entries fs p1 of
             (p2, ts) \<Rightarrow> (p2, (case t of None \<Rightarrow> ts | Some x \<Rightarrow> x # ts))))"

definition on_file_change :: "picked list \<Rightarrow> page \<Rightarrow> page \<times> task list" where
  "on_file_change fs p = spawn_entries fs p"

text \<open>The drop area listeners; the flag is whether the listener called
  \<open>event.preventDefault()\<close>.\<close>

definition on_dragover :: "page \<Rightarrow> page \<times> bool" where
  "on_dragover p = (p\<lparr>dragging := True\<rparr>, True)"

definition on_dragleave :: "page \<Rightarrow> page" where
  "on_dragleave p = p\<lparr>dragging := False\<rparr>"

definition on_drop :: "picked list \<Rightarrow> page \<Rightarrow> (page \<times> task list) \<times> bool" where
  "on_drop fs p = (spawn_entries fs (p\<lparr>dragging := False\<rparr>), True)"

subsection \<open>The event loop\<close>

text \<open>
  The world: the page, the suspended \<open>addEntry\<close> calls (in call order), whether the
  pointer of a drag is over the drop area, whether the last \<open>dragover\<close> there was
  cancelled, and whether the browser has run the default action of a drop.
\<close>

record world =
  pg :: page
  pending :: "task list"
  over_area :: bool
  drop_allowed :: bool
  navigated :: bool

definition init_world :: world where
  "init_world =
     \<lparr>pg = init_page, pending = [], over_area = False, drop_allowed = False, navigated = False\<rparr>"

datatype event =
    Change "picked list"
  | DragOver
  | DragLeave
  | Drop "picked list"
  | Settle nat settlement

text \<open>Replace the \<open>i\<close>-th pending call by its next suspension, or drop it when it has
  finished.\<close>

definition replace_task :: "nat \<Rightarrow> task option \<Rightarrow> task list \<Rightarrow> task list" where
  "replace_task i t ts = take i ts @ (case t of None \<Rightarrow> [] | Some x \<Rightarrow> [x]) @ drop (Suc i) ts"

text \<open>One turn of the event loop; \<open>None\<close> for an event that cannot happen there.\<close>

fun step :: "event \<Rightarrow> world \<Rightarrow> world option" where
  "step (Change fs) w =
     (if list_all picked_ok fs
      then Some (case on_file_change fs (pg w) of
                   (p, ts) \<Rightarrow> w\<lparr>pg := p, pending := pending w @ ts\<rparr>)
      else None)"
| "step DragOver w =
     Some (case on_dragover (pg w) of
             (p, prevented) \<Rightarrow> w\<lparr>pg := p, over_area := True, drop_allowed := prevented\<rparr>)"
| "step DragLeave w =
     Some (w\<lparr>pg := on_dragleave (pg w), over_area := False, drop_allowed := False\<rparr>)"
| "step (Drop fs) w =
     (if over_area w \<and> list_all picked_ok fs
      then Some (if drop_allowed w
                 then (case on_drop fs (pg w) of
                         ((p, ts), prevented) \<Rightarrow>
                           w\<lparr>pg := p, pending := pending w @ ts, over_area := False,
                             drop_allowed := False, navigated := navigated w \<or> \<not> prevented\<rparr>)
                 else w\<lparr>over_area := False, drop_allowed := False, navigated := True\<rparr>)
      else None)"
| "step (Settle i s) w =
     (if i < length (pending w)
      then (case resume (pending w ! i) s (pg w) of
              None \<Rightarrow> None
            | Some (p, t) \<Rightarrow> Some (w\<lparr>pg := p, pending := replace_task i t (pending w)\<rparr>))
      else None)"

fun run :: "event list \<Rightarrow> world \<Rightarrow> world option" where
  "run [] w = Some w"
| "run (e # es) w = (case step e w of None \<Rightarrow> None | Some w' \<Rightarrow> run es w')"

inductive reachable :: "world \<Rightarrow> bool" where
  init: "reachable init_world"
| step: "reachable w \<Longrightarrow> step e w = Some w' \<Longrightarrow> reachable w'"

fun_cases step_SettleE: "step (Settle i s) w = Some w'"

declare demo_vendor_def [js_eval] picked_ok_def [js_eval] on_file_change_def [js_eval]
  on_dragover_def [js_eval] on_dragleave_def [js_eval] on_drop_def [js_eval]
  init_world_def [js_eval] replace_task_def [js_eval]

subsection \<open>Invariants and measures\<close>

text \<open>The request every loop iteration of the listeners makes: the key of the string
  argument, the string as the body, no content type.\<close>

definition demo_request :: "string \<Rightarrow> put_request" where
  "demo_request v = \<lparr>put_key = ''receipts/undefined'', put_body = BodyString v, put_content_type = JUndefined\<rparr>"

definition task_key :: "task \<Rightarrow> string" where
  "task_key t = (case t of AwaitPut k r \<Rightarrow> k | AwaitFetch k \<Rightarrow> k | AwaitJson k \<Rightarrow> k)"

definition is_string_body :: "upload_body \<Rightarrow> bool" where
  "is_string_body b = (case b of BodyString v \<Rightarrow> True | BodyFile f \<Rightarrow> False)"

text \<open>What the listeners send the object store: one key, \<open>receipts/undefined\<close>, for
  every call, with a string body; the bucket only ever holds that key.\<close>

fun put_in_flight_ok :: "put_request list \<Rightarrow> task \<Rightarrow> bool" where
  "put_in_flight_ok rs (AwaitPut k r) = (r \<in> set rs)"
| "put_in_flight_ok rs _ = True"

definition uploads_ok :: "world \<Rightarrow> bool" where
  "uploads_ok w \<longleftrightarrow>
     (\<forall>r\<in>set (puts (pg w)). put_key r = ''receipts/undefined'' \<and> is_string_body (put_body r)) \<and>
     (\<forall>k r. bucket (pg w) k = Some r \<longrightarrow> k = ''receipts/undefined'' \<and> r \<in> set (puts (pg w))) \<and>
     (\<forall>t\<in>set (pending w). task_key t = ''receipts/undefined'' \<and> put_in_flight_ok (puts (pg w)) t)"

definition drop_ok :: "world \<Rightarrow> bool" where
  "drop_ok w \<longleftrightarrow> (over_area w \<longrightarrow> drop_allowed w) \<and> \<not> navigated w"

definition prices_ok :: "page \<Rightarrow> bool" where
  "prices_ok p \<longleftrightarrow> (\<forall>e\<in>set (data p). price e \<noteq> NaN)"

definition world_ok :: "world \<Rightarrow> bool" where
  "world_ok w \<longleftrightarrow> render_ok (pg w) \<and> prices_ok (pg w) \<and> drop_ok w \<and> uploads_ok w"

text \<open>A suspended call has at most three awaits left: the weight of the pending calls
  bounds the number of settlements the event loop can still deliver.\<close>

fun task_weight :: "task \<Rightarrow> nat" where
  "task_weight (AwaitPut k r) = 3"
| "task_weight (AwaitFetch k) = 2"
| "task_weight (AwaitJson k) = 1"

definition pending_work :: "world \<Rightarrow> nat" where
  "pending_work w = sum_list (map task_weight (pending w))"

text \<open>The settlement that ends a call at once: the rejection of what it awaits.\<close>

fun abort_settlement :: "task \<Rightarrow> settlement" where
  "abort_settlement (AwaitPut k r) = PutRejected StorageError"
| "abort_settlement (AwaitFetch k) = FetchRejected NetworkError"
| "abort_settlement (AwaitJson k) = JsonRejected SyntaxError"

subsection \<open>The listeners\<close>

lemma spawn_entries_eq:
  "spawn_entries fs p =
     (p\<lparr>puts := puts p @ map (\<lambda>x. demo_request (demo_vendor (fst (snd x)))) fs\<rparr>,
      map (\<lambda>x. AwaitPut ''receipts/undefined'' (demo_request (demo_vendor (fst (snd x))))) fs)"
proof (induction fs arbitrary: p)
  case Nil
  then show ?case by simp
next
  case (Cons x fs)
  obtain f r1 r2 where "x = (f, r1, r2)" by (cases x) auto
  with Cons.IH show ?case by (simp add: add_entry_call_eq demo_request_def Let_def)
qed

subsection \<open>Invariants of the event loop\<close>

lemma world_ok_init: "world_ok init_world"
  by (simp add: world_ok_def init_world_def render_ok_init prices_ok_def drop_ok_def
      uploads_ok_def) (simp add: init_page_def)

lemma prices_ok_frame [simp]:
  "prices_ok (p\<lparr>puts := rs\<rparr>) = prices_ok p" "prices_ok (p\<lparr>dragging := g\<rparr>) = prices_ok p"
  by (simp_all add: prices_ok_def)

lemma step_render_ok: "step e w = Some w' \<Longrightarrow> render_ok (pg w) \<Longrightarrow> render_ok (pg w')"
  by (cases e) (auto simp: spawn_entries_eq on_file_change_def on_dragover_def on_dragleave_def
      on_drop_def resume_render_ok split: if_splits option.splits prod.splits)

lemma step_prices_ok: "step e w = Some w' \<Longrightarrow> prices_ok (pg w) \<Longrightarrow> prices_ok (pg w')"
  by (cases e) (auto simp: spawn_entries_eq on_file_change_def on_dragover_def on_dragleave_def
      on_drop_def prices_ok_def dest: resume_prices split: if_splits option.splits prod.splits)

lemma step_drop_ok: "step e w = Some w' \<Longrightarrow> drop_ok w \<Longrightarrow> drop_ok w'"
  by (cases e) (auto simp: drop_ok_def on_dragover_def on_drop_def split: if_splits option.splits prod.splits)

lemma resume_uploads:
  assumes "resume t s p = Some (p', t')"
  shows "puts p' = puts p"
    and "bucket p' k = Some r \<Longrightarrow> bucket p k = Some r \<or> t = AwaitPut k r"
    and "t' = Some x \<Longrightarrow> task_key x = task_key t \<and> (case x of AwaitPut k r \<Rightarrow> False | _ \<Rightarrow> True)"
  using assms
  by (cases t; cases s; auto simp: task_key_def split: sum.splits if_splits)+

lemma set_replace_task: "set (replace_task i t ts) \<subseteq> set ts \<union> set_option t"
  unfolding replace_task_def
  using set_take_drop_Suc_subset [of i ts "case t of None \<Rightarrow> [] | Some x \<Rightarrow> [x]"]
  by (auto split: option.splits)

lemma uploads_ok_spawn:
  assumes "uploads_ok w" and "puts p = puts (pg w)" and "bucket p = bucket (pg w)"
  shows "uploads_ok (w\<lparr>pg := fst (spawn_entries fs p), pending := pending w @ snd (spawn_entries fs p)\<rparr>)"
  using assms
  by (auto simp: uploads_ok_def spawn_entries_eq demo_request_def is_string_body_def task_key_def
      split: task.splits)

lemma step_uploads_ok: "step e w = Some w' \<Longrightarrow> uploads_ok w \<Longrightarrow> uploads_ok w'"
proof (cases e)
  case (Settle i s)
  assume st: "step e w = Some w'" and ok: "uploads_ok w"
  with Settle obtain p t' where i: "i < length (pending w)"
    and r: "resume (pending w ! i) s (pg w) = Some (p, t')"
    and w': "w' = w\<lparr>pg := p, pending := replace_task i t' (pending w)\<rparr>"
    by (auto split: if_splits option.splits)
  have t_in: "pending w ! i \<in> set (pending w)" using i by simp
  have puts': "puts p = puts (pg w)" by (rule resume_uploads(1) [OF r])
  have "\<forall>x\<in>set (puts p). put_key x = ''receipts/undefined'' \<and> is_string_body (put_body x)"
    using ok puts' by (simp add: uploads_ok_def)
  moreover have "\<forall>k x. bucket p k = Some x \<longrightarrow> k = ''receipts/undefined'' \<and> x \<in> set (puts p)"
  proof (intro allI impI)
    fix k x assume "bucket p k = Some x"
    then have "bucket (pg w) k = Some x \<or> pending w ! i = AwaitPut k x"
      by (rule resume_uploads(2) [OF r])
    with ok t_in puts' show "k = ''receipts/undefined'' \<and> x \<in> set (puts p)"
      by (auto simp: uploads_ok_def task_key_def)
  qed
  moreover have "\<forall>x\<in>set (replace_task i t' (pending w)). task_key x = ''receipts/undefined'' \<and>
                   put_in_flight_ok (puts p) x"
  proof
    fix x assume "x \<in> set (replace_task i t' (pending w))"
    then have "x \<in> set (pending w) \<or> t' = Some x"
      using set_replace_task [of i t' "pending w"] by auto
    with ok t_in puts' resume_uploads(3) [OF r]
    show "task_key x = ''receipts/undefined'' \<and> put_in_flight_ok (puts p) x"
      by (cases x) (auto simp: uploads_ok_def)
  qed
  moreover have pg': "pg w' = p" and pend': "pending w' = replace_task i t' (pending w)"
    by (simp_all add: w')
  ultimately show ?thesis unfolding uploads_ok_def pg' pend' by blast
next
  case (Change fs)
  assume st: "step e w = Some w'" and ok: "uploads_ok w"
  with Change have "w' = w\<lparr>pg := fst (spawn_entries fs (pg w)),
                         pending := pending w @ snd (spawn_entries fs (pg w))\<rparr>"
    by (auto simp: on_file_change_def case_prod_beta split: if_splits)
  with ok show ?thesis by (simp add: uploads_ok_spawn)
next
  case (Drop fs)
  assume st: "step e w = Some w'" and ok: "uploads_ok w"
  show ?thesis
  proof (cases "drop_allowed w")
    case True
    with st Drop have "w' = w\<lparr>pg := fst (spawn_entries fs ((pg w)\<lparr>dragging := False\<rparr>)),
        pending := pending w @ snd (spawn_entries fs ((pg w)\<lparr>dragging := False\<rparr>)),
        over_area := False, drop_allowed := False, navigated := navigated w\<rparr>"
      by (auto simp: on_drop_def case_prod_beta split: if_splits)
    moreover have "uploads_ok (w\<lparr>pg := fst (spawn_entries fs ((pg w)\<lparr>dragging := False\<rparr>)),
        pending := pending w @ snd (spawn_entries fs ((pg w)\<lparr>dragging := False\<rparr>))\<rparr>)"
      using ok by (simp add: uploads_ok_spawn)
    ultimately show ?thesis by (simp add: uploads_ok_def)
  next
    case False
    with st Drop ok show ?thesis by (auto simp: uploads_ok_def split: if_splits)
  qed
qed (auto simp: on_dragover_def on_dragleave_def uploads_ok_def)

lemma step_world_ok: "step e w = Some w' \<Longrightarrow> world_ok w \<Longrightarrow> world_ok w'"
  by (simp add: world_ok_def step_render_ok step_prices_ok step_drop_ok step_uploads_ok)

lemma reachable_world_ok: "reachable w \<Longrightarrow> world_ok w"
proof (induction rule: reachable.induct)
  case init
  show ?case by (rule world_ok_init)
next
  case (step w e w')
  then show ?case by (blast intro: step_world_ok)
qed

lemma run_reachable: "run evs w = Some w' \<Longrightarrow> reachable w \<Longrightarrow> reachable w'"
proof (induction evs arbitrary: w)
  case Nil
  then show ?case by simp
next
  case (Cons e evs)
  then obtain w1 where "step e w = Some w1" and "run evs w1 = Some w'"
    by (auto split: option.splits)
  with Cons show ?case by (blast intro: reachable.step)
qed

text \<open>\<open>data\<close> only grows, over one turn and over any run.\<close>

lemma step_data_prefix: "step e w = Some w' \<Longrightarrow> prefix (data (pg w)) (data (pg w'))"
  by (cases e) (auto simp: spawn_entries_eq on_file_change_def on_dragover_def on_dragleave_def
      on_drop_def dest: resume_data_prefix split: if_splits option.splits prod.splits)

lemma run_data_prefix: "run evs w = Some w' \<Longrightarrow> prefix (data (pg w)) (data (pg w'))"
proof (induction evs arbitrary: w)
  case Nil
  then show ?case by simp
next
  case (Cons e evs)
  then obtain w1 where "step e w = Some w1" and "run evs w1 = Some w'"
    by (auto split: option.splits)
  with Cons.IH show ?case by (blast dest: step_data_prefix intro: prefix_order.trans)
qed

subsection \<open>Termination and progress of the pending calls\<close>

lemma resume_weight:
  "resume t s p = Some (p', t') \<Longrightarrow>
   sum_list (map task_weight (case t' of None \<Rightarrow> [] | Some x \<Rightarrow> [x])) < task_weight t"
  by (cases t; cases s) (auto split: sum.splits)

lemma step_Settle_work:
  assumes "step (Settle i s) w = Some w'"
  shows "pending_work w' < pending_work w"
proof -
  from assms obtain p t' where i: "i < length (pending w)"
    and r: "resume (pending w ! i) s (pg w) = Some (p, t')"
    and w': "w' = w\<lparr>pg := p, pending := replace_task i t' (pending w)\<rparr>"
    by (auto split: if_splits option.splits)
  have "pending_work w' + task_weight (pending w ! i) =
        pending_work w + sum_list (map task_weight (case t' of None \<Rightarrow> [] | Some x \<Rightarrow> [x]))"
    using sum_list_take_drop_Suc [OF i, of task_weight] by (simp add: pending_work_def w' replace_task_def)
  with resume_weight [OF r] show ?thesis by simp
qed

lemma resume_abort: "\<exists>p'. resume t (abort_settlement t) p = Some (p', None)"
  by (cases t) simp_all

lemma run_abort_all:
  "pending w = ts \<Longrightarrow> \<exists>w'. run (map (\<lambda>t. Settle 0 (abort_settlement t)) ts) w = Some w' \<and> pending w' = []"
proof (induction ts arbitrary: w)
  case Nil
  then show ?case by simp
next
  case (Cons t ts)
  obtain p' where r: "resume t (abort_settlement t) (pg w) = Some (p', None)"
    using resume_abort by blast
  let ?w1 = "w\<lparr>pg := p', pending := ts\<rparr>"
  have "step (Settle 0 (abort_settlement t)) w = Some ?w1"
    using Cons.prems r by (simp add: replace_task_def)
  moreover from Cons.IH [of ?w1] obtain w' where
    "run (map (\<lambda>t. Settle 0 (abort_settlement t)) ts) ?w1 = Some w' \<and> pending w' = []"
    by auto
  ultimately show ?case by simp
qed

end
