(* ===== verification/PriceFormat.thy ===== *)
theory PriceFormat
  imports NumberFormat ParseFloat
begin

text \<open>
  What the price column prints. \<open>toFixed(f)\<close> of a finite Number below \<open>10^21\<close> is an
  optional sign, a non-empty run of digits, a point and exactly \<open>f\<close> digits, and the
  digits read back by the \<open>parseFloat\<close> scanner's \<open>digits_value\<close> are the Number scaled
  by \<open>10^f\<close> and rounded to the nearest integer. The lemmas here carry that theorem:
  the value of the digit strings, the shape of \<open>fixed_digits\<close>, the rounding bound of
  the integer \<open>n\<close> of \<open>toFixed\<close> step 8 and the exact value of \<open>bin_frac\<close>.
\<close>

lemma digits_value_snoc: "digits_value (ds @ [c]) = 10 * digits_value ds + (of_char c - 48)"
  by (simp add: digits_value_def)

lemma digit_char_value: "d < 10 \<Longrightarrow> of_char (digit_char d) - 48 = d"
  by (auto simp: digit_char_def numeral_eq_Suc less_Suc_eq)

lemma nat_digits_value: "digits_value (nat_digits n) = n"
proof (induction n rule: nat_digits.induct)
  case (1 n)
  show ?case
  proof (cases "n < 10")
    case True
    then show ?thesis
      by (subst nat_digits.simps) (simp add: digits_value_def digit_char_value)
  next
    case False
    then have "digits_value (nat_digits n) = 10 * (n div 10) + n mod 10"
      using "1.IH" by (subst nat_digits.simps) (simp add: digits_value_snoc digit_char_value)
    then show ?thesis by simp
  qed
qed

lemma foldl_zeros: "foldl (\<lambda>n c. 10 * n + (of_char c - 48)) 0 (replicate k (CHR ''0'')) = (0::nat)"
  by (induction k) simp_all

lemma digits_value_zeros: "digits_value (replicate k (CHR ''0'') @ ds) = digits_value ds"
  by (simp add: digits_value_def foldl_zeros)

lemma fixed_digits_shape:
  assumes "0 < f"
  shows "\<exists>ip fp. fixed_digits f n = ip @ ''.'' @ fp \<and> length fp = f \<and> ip \<noteq> [] \<and>
           set (ip @ fp) \<subseteq> decimal_chars \<and> digits_value (ip @ fp) = n"
proof -
  define m where "m = nat_digits n"
  define m' where "m' = (if length m \<le> f then replicate (f + 1 - length m) (CHR ''0'') @ m else m)"
  have len: "f < length m'"
    using nat_digits_nonempty [of n] by (simp add: m'_def m_def)
  have val: "digits_value m' = n"
    by (simp add: m'_def m_def digits_value_zeros nat_digits_value)
  have chars: "set m' \<subseteq> decimal_chars"
    using nat_digits_chars [of n] by (auto simp: m'_def m_def decimal_chars_def)
  have fd: "fixed_digits f n = take (length m' - f) m' @ ''.'' @ drop (length m' - f) m'"
    using assms by (simp add: fixed_digits_def m'_def m_def Let_def)
  have ne: "take (length m' - f) m' \<noteq> []" using len by auto
  let ?ip = "take (length m' - f) m'" and ?fp = "drop (length m' - f) m'"
  have "fixed_digits f n = ?ip @ ''.'' @ ?fp \<and> length ?fp = f \<and> ?ip \<noteq> [] \<and>
        set (?ip @ ?fp) \<subseteq> decimal_chars \<and> digits_value (?ip @ ?fp) = n"
    using len val chars fd ne by (simp only: append_take_drop_id length_drop) simp
  then show ?thesis by blast
qed

text \<open>The integer \<open>n\<close> of \<open>toFixed\<close>: the quotient rounded to nearest, ties upwards,
  is within one half of the exact quotient.\<close>

lemma round_half_up_bound:
  assumes "0 < Q"
  shows "\<bar>of_nat (c div Q + (if Q \<le> 2 * (c mod Q) then 1 else 0)) - of_nat c / of_nat Q\<bar> \<le> (1 / 2 :: rat)"
proof -
  define q r where "q = c div Q" and "r = c mod Q"
  have "c = Q * q + r" by (simp add: q_def r_def)
  then have c: "(of_nat c :: rat) / of_nat Q = of_nat q + of_nat r / of_nat Q"
    using assms by (simp add: field_simps)
  have lt: "(of_nat r :: rat) / of_nat Q < 1"
    using assms by (simp add: r_def divide_less_eq)
  have ge: "0 \<le> (of_nat r :: rat) / of_nat Q" by simp
  show ?thesis
  proof (cases "Q \<le> 2 * r")
    case True
    then have "(of_nat Q :: rat) \<le> of_nat (2 * r)" by (simp only: of_nat_le_iff)
    then have "1 / 2 \<le> (of_nat r :: rat) / of_nat Q"
      using assms by (simp add: le_divide_eq)
    with lt True show ?thesis by (simp add: c q_def [symmetric] r_def [symmetric])
  next
    case False
    then have "(of_nat (2 * r) :: rat) < of_nat Q" by (simp only: of_nat_less_iff not_le)
    then have "(of_nat r :: rat) / of_nat Q < 1 / 2"
      using assms by (simp add: divide_less_eq)
    with ge False show ?thesis by (simp add: c q_def [symmetric] r_def [symmetric])
  qed
qed

lemma bin_frac_value:
  assumes "bin_frac (nat \<bar>m\<bar>) e = (P, Q)"
  shows "0 < Q \<and> of_nat P / of_nat Q = \<bar>num_val m e\<bar>"
  using assms
  by (auto simp: bin_frac_def num_val_def power_int_def abs_mult field_simps split: if_splits)

lemma to_fixed_Fin_small:
  assumes "bin_frac (nat \<bar>m\<bar>) e = (P, Q)" and "\<not> 10 ^ 21 * Q \<le> P"
  shows "to_fixed f (Fin m e) = (if m < 0 then ''-'' else '''') @
           fixed_digits f (P * 10 ^ f div Q + (if Q \<le> 2 * (P * 10 ^ f mod Q) then 1 else 0))"
  using assms by (simp add: to_fixed_def Let_def)


text \<open>Scaling an error bound of \<open>1/2\<close> on \<open>x * 10^f\<close> back to \<open>x\<close>.\<close>

lemma scaled_error_bound:
  "\<bar>of_nat n - x * 10 ^ f\<bar> \<le> (1 / 2 :: rat) \<Longrightarrow> \<bar>of_nat n / 10 ^ f - x\<bar> \<le> 1 / (2 * 10 ^ f)"
proof -
  assume a: "\<bar>of_nat n - x * 10 ^ f\<bar> \<le> (1 / 2 :: rat)"
  have K: "(0::rat) < 10 ^ f" by simp
  have "of_nat n / 10 ^ f - x = (of_nat n - x * 10 ^ f) / 10 ^ f"
    using K by (simp add: field_simps)
  then have "\<bar>of_nat n / 10 ^ f - x\<bar> = \<bar>of_nat n - x * 10 ^ f\<bar> / 10 ^ f"
    by (simp add: abs_divide)
  also have "\<dots> \<le> (1 / 2) / 10 ^ f"
    using a K by (rule divide_right_mono [OF _ less_imp_le])
  finally show ?thesis by simp
qed

end
