(* ===== verification/Spec2Isabelle.thy ===== *)
theory Spec2Isabelle
  imports EventLoop PriceFormat
begin

text \<open>
  \<^bold>\<open>A verification model of the expense tracker page script.\<close>

  The repository is one browser script, \<open>src/script.js\<close>. On load it configures
  Amplify and looks up the file input, the table body and the chart canvas; it keeps the
  expense list \<open>data\<close> and the chart instance \<open>chart\<close> in module variables. Its parts:
  \<^item> the upload pipeline: \<open>addEntry(file)\<close> (lines 15--35) uploads the file with
    \<open>Storage.put\<close> under \<open>receipts/<name>\<close>, calls \<open>fetchReceiptDetails\<close> (lines
    39--54), which fetches the receipt API and reads \<open>vendor\<close> and
    \<open>parseFloat(total)\<close> from the JSON answer (\<open>Unknown\<close>/\<open>0\<close> on any error), then
    appends \<open>{vendor || 'Unknown Vendor', price: total || 0}\<close> to \<open>data\<close> and re-renders;
  \<^item> the renderers: \<open>updateTable\<close> (lines 59--69) rebuilds the table rows with
    \<open>toFixed(2)\<close> prices, \<open>updateChart\<close> (lines 72--103) destroys the previous chart
    and builds a pie chart of the list;
  \<^item> the input sources: the \<open>change\<close> listener of the file input (lines 106--114) and
    the \<open>dragover\<close>/\<open>dragleave\<close>/\<open>drop\<close> listeners of the drop area (lines 117--132);
    both loops call \<open>addEntry(vendor, price)\<close> with a random demo vendor string instead
    of the file;
  \<^item> the JavaScript runtime the script relies on: Numbers (doubles), \<open>parseFloat\<close>,
    \<open>Number::toString\<close>, \<open>toFixed\<close>, ToString of values, property access,
    \<open>encodeURIComponent\<close>, truthiness and \<open>||\<close>.

  \<^bold>\<open>Theories.\<close>
  \<^item> \<open>Prelude\<close>: the \<open>js_eval\<close> bundle of evaluation equations used by the witnesses,
    sums as exceptions (\<open>sum_bind\<close>), \<open>join_with\<close>, and list lemmas.
  \<^item> \<open>JsNumber\<close>: the Number type as \<open>Fin m e\<close> (\<open>m * 2 powi e\<close>, normalised) with NaN
    and the infinities; \<open>round_ratio\<close> is the ECMAScript rounding of a mathematical
    value to a double (ties to even, subnormals, overflow at \<open>2^1024\<close>), computed on
    integers; \<open>js_mul\<close>, \<open>js_floor\<close>, \<open>num_truthy\<close>.
  \<^item> \<open>NumberFormat\<close>: \<open>num_to_string\<close> (Number::toString: the shortest decimal that
    rounds back, formatted by steps 6--10 of the specification) and \<open>to_fixed\<close>
    (\<open>Number.prototype.toFixed\<close>), with the characters they print.
  \<^item> \<open>ParseFloat\<close>: \<open>parse_float\<close>, the longest StrDecimalLiteral prefix after white
    space, rounded by \<open>round_ratio\<close>.
  \<^item> \<open>PriceFormat\<close>: lemmas on what \<open>toFixed\<close> prints: the value of its digit
    strings as the \<open>parseFloat\<close> scanner reads them, the shape of \<open>fixed_digits\<close>, the
    rounding bound of its integer \<open>n\<close> and the exact value of \<open>bin_frac\<close>.
  \<^item> \<open>JsValue\<close>: \<open>jsval\<close> (JSON values and \<open>undefined\<close>), \<open>truthy\<close>, \<open>js_or\<close>,
    \<open>get_prop\<close>, \<open>js_to_string\<close> (which throws for an object with an own
    \<open>toString\<close>), \<open>js_parse_float\<close>, \<open>encode_uri_component\<close>.
  \<^item> \<open>Render\<close>: \<open>expense\<close>, \<open>row_html\<close> and \<open>table_rows\<close> (\<open>updateTable\<close>),
    \<open>chart_config_of\<close> and \<open>update_chart\<close> (\<open>updateChart\<close>) over a \<open>canvas\<close> that
    records the instances alive on it.
  \<^item> \<open>Receipt\<close>: the \<open>page\<close> record (module state, console, and what was sent to the
    object store and the API), \<open>add_entry_call\<close> (\<open>addEntry\<close> up to its first
    \<open>await\<close>), \<open>resume\<close> (one continuation per \<open>await\<close>: \<open>Storage.put\<close>,
    \<open>fetch\<close>, \<open>response.json()\<close>), \<open>finish_entry\<close> (push and render, with the
    exception path of \<open>updateTable\<close>), \<open>add_entry\<close> (one call run to its end).
  \<^item> \<open>EventLoop\<close>: the listeners (\<open>on_file_change\<close>, \<open>on_dragover\<close>,
    \<open>on_dragleave\<close>, \<open>on_drop\<close>, \<open>spawn_entries\<close>), the world (page, pending calls,
    drag state of the browser), \<open>step\<close> for one turn of the event loop, \<open>run\<close>,
    \<open>reachable\<close>, the invariants, the growth of \<open>data\<close> over runs and the work
    measure.

  \<^bold>\<open>How the model corresponds to the code.\<close> Each event of \<open>step\<close> is one turn of the
  event loop: a DOM event runs a listener to its end, a settlement resumes one pending call
  up to its next \<open>await\<close> (the await of \<open>fetchReceiptDetails\<close>'s own promise resumes in
  the same turn). Which pending call a network answer resumes is part of the event, so
  every interleaving of concurrent pipelines is a run. The object store and the API are
  outside: the requests are recorded in the page, their answers are the settlements.
  Strings are lists of code units below 256; negative zero is identified with zero;
  \<open>Math.random()\<close> results are inputs of the events (any double in \<open>[0, 1)\<close>).

  \<^bold>\<open>What is proved.\<close> Over every reachable world: at most one chart instance is alive,
  the one the variable \<open>chart\<close> holds (C1); the table shows exactly the rows of the
  longest printable prefix of \<open>data\<close> and the chart that prefix (C2, C3), so with
  printable vendors there are as many rows and slices as records (C4); no price is NaN and
  no cell prints \<open>NaN\<close> (C8); \<open>data\<close> only grows (C10); every upload goes to the one key
  \<open>receipts/undefined\<close> with a string body (C13); a drop never runs the browser's
  default action (C14). For single steps: an upload failure appends nothing and leaves
  the other calls pending (C5), a failed fetch appends \<open>Unknown\<close>/\<open>0\<close> (C6), an answer
  appends \<open>vendor || 'Unknown Vendor'\<close> and \<open>total || 0\<close> (C7). The settlements a
  world can still receive are bounded by three per pending call (C11), and every pending
  call can be brought to its end (C12). For every finite price below \<open>10^21\<close>,
  \<open>toFixed\<close> prints a sign, digits, a point and exactly the requested number of digits,
  whose value is the price to within half a unit of the last place (C9). Once a record
  whose vendor cannot be printed is in \<open>data\<close> at position \<open>i\<close>, no later run shows
  more than \<open>i\<close> rows or slices (C15). The file input's listener does not depend on
  the files picked (C16).

  \<^bold>\<open>Bounds and fuel.\<close> \<open>shortest_decimal\<close> tries 1 to 16 digits and falls back to the
  nearest 17-digit decimal, which identifies every double. No other definition uses fuel;
  the recursions of the number printers are on the value (\<open>div 10\<close>, \<open>div 2\<close>).

  \<^bold>\<open>Not modelled.\<close> Amplify's configuration and the storage client, the receipt API,
  \<open>JSON.parse\<close> (the settlement carries the parsed value or the SyntaxError), the DOM's
  HTML parser for the \<open>innerHTML\<close> strings, Chart.js's drawing (only the instance life
  cycle and the configuration are modelled), and console formatting.

  \<^bold>\<open>Plan for the next steps.\<close> Correctness of the number layer against its rational
  specification (\<open>round_ratio\<close> returns the nearest double; \<open>floor_log2_ratio\<close> and
  \<open>floor_log10_ratio\<close> bounds), the round trip \<open>parse_float (num_to_string x) = x\<close>
  for doubles, \<open>encodeURIComponent\<close> injectivity, the bound
  \<open>Math.floor(Math.random() * 100) < 100\<close> of the demo vendor, and completion order of
  concurrent pipelines.
\<close>

subsection \<open>Sample inputs\<close>

definition sample_file :: file_handle where
  "sample_file = \<lparr>file_name = ''receipt.png'', file_type = ''image/png'', file_bytes = ''PNG''\<rparr>"

definition sample_response :: jsval where
  "sample_response = JObject [(''vendor'', JString ''ACME''), (''total'', JString ''12.3'')]"

definition hostile_response :: jsval where
  "hostile_response = JObject [(''vendor'', JObject [(''toString'', JNumber (Fin 1 0))]), (''total'', JString ''5'')]"

definition sample_upload :: "event list" where
  "sample_upload = [DragOver, Drop [(sample_file, Fin 0 0, Fin 0 0)]]"

definition sample_run :: "event list" where
  "sample_run = sample_upload @
     [Settle 0 PutResolved, Settle 0 FetchResolved, Settle 0 (JsonResolved sample_response)]"

definition hostile_run :: "event list" where
  "hostile_run = [DragOver, Drop [(sample_file, Fin 0 0, Fin 0 0), (sample_file, Fin 0 0, Fin 0 0)],
     Settle 0 PutResolved, Settle 0 FetchResolved, Settle 0 (JsonResolved hostile_response),
     Settle 0 PutResolved, Settle 0 FetchResolved, Settle 0 (JsonResolved sample_response)]"

lemmas sample_eval = sample_file_def sample_response_def hostile_response_def sample_upload_def
  sample_run_def hostile_run_def init_page_def init_canvas_def update_chart_def new_chart_def
  destroy_chart_def

lemma sample_run_facts:
  "\<exists>w. run sample_run init_world = Some w \<and>
     data (pg w) = [\<lparr>vendor = JString ''ACME'', price = Fin 3462142213541069 (-48)\<rparr>] \<and>
     pending w = [] \<and> chart_var (canvas (pg w)) \<noteq> None \<and> table (pg w) \<noteq> [] \<and>
     puts (pg w) \<noteq> [] \<and> bucket (pg w) ''receipts/undefined'' \<noteq> None"
  by (simp add: sample_eval js_eval)

lemma sample_upload_facts:
  "\<exists>w. run sample_upload init_world = Some w \<and>
     pending w = [AwaitPut ''receipts/undefined'' (demo_request ''Vendor 0'')] \<and> data (pg w) = []"
  by (simp add: sample_eval js_eval demo_request_def)

lemma sample_fetch_facts:
  "\<exists>w. run (sample_upload @ [Settle 0 PutResolved]) init_world = Some w \<and>
     pending w = [AwaitFetch ''receipts/undefined''] \<and> data (pg w) = []"
  by (simp add: sample_eval js_eval demo_request_def)

lemma sample_json_facts:
  "\<exists>w. run (sample_upload @ [Settle 0 PutResolved, Settle 0 FetchResolved]) init_world = Some w \<and>
     pending w = [AwaitJson ''receipts/undefined''] \<and> data (pg w) = []"
  by (simp add: sample_eval js_eval demo_request_def)

lemma sample_response_details:
  "details_of_result sample_response = Inr (JString ''ACME'', Fin 3462142213541069 (-48))"
  by (simp add: sample_eval js_eval)

lemma sample_run_reachable: "run evs init_world = Some w \<Longrightarrow> reachable w"
  by (erule run_reachable) (rule reachable.init)

lemma hostile_run_facts:
  "\<exists>w w'. run hostile_run init_world = Some w \<and> run sample_run w = Some w' \<and>
     length (data (pg w)) = 2 \<and> \<not> renderable (data (pg w) ! 0) \<and> length (data (pg w')) = 3"
  by (simp add: sample_eval js_eval)

subsection \<open>The chart instance\<close>

text \<open>C1. In every reachable state the canvas carries at most one chart instance: exactly
  the one the module variable \<open>chart\<close> holds, none while it is unset. \<open>updateChart\<close>
  destroys the old instance before it constructs the new one.\<close>

theorem chart_single_instance:
  assumes "reachable w"
  shows "live_charts (canvas (pg w)) = (case chart_var (canvas (pg w)) of None \<Rightarrow> [] | Some ch \<Rightarrow> [ch])"
  using reachable_world_ok [OF assms] by (simp add: world_ok_def render_ok_def canvas_ok_def)

theorem chart_single_instance_witness:
  "\<exists>w. run sample_run init_world = Some w \<and> reachable w \<and> chart_var (canvas (pg w)) \<noteq> None \<and>
     live_charts (canvas (pg w)) = [the (chart_var (canvas (pg w)))]"
proof -
  obtain w where r: "run sample_run init_world = Some w" and c: "chart_var (canvas (pg w)) \<noteq> None"
    using sample_run_facts by blast
  have reach: "reachable w" using r by (rule sample_run_reachable)
  with r c chart_single_instance [OF reach] show ?thesis by (auto split: option.splits)
qed

subsection \<open>What the page shows\<close>

text \<open>C2. In every reachable state the table body holds exactly the rows of the longest
  prefix of \<open>data\<close> whose vendors can be printed, in order: \<open>updateTable\<close> clears the body
  and appends one row per entry until a row throws.\<close>

theorem table_shows_printable_prefix:
  assumes "reachable w"
  shows "table (pg w) = map (projr \<circ> row_html) (takeWhile renderable (data (pg w)))"
  using reachable_world_ok [OF assms] by (simp add: world_ok_def render_ok_def table_rows_prefix)

theorem table_shows_printable_prefix_witness:
  "\<exists>w. run sample_run init_world = Some w \<and> reachable w \<and> data (pg w) \<noteq> [] \<and> table (pg w) \<noteq> [] \<and>
     table (pg w) = map (projr \<circ> row_html) (takeWhile renderable (data (pg w)))"
proof -
  obtain w where r: "run sample_run init_world = Some w" and f: "data (pg w) \<noteq> []" "table (pg w) \<noteq> []"
    using sample_run_facts by fastforce
  have reach: "reachable w" using r by (rule sample_run_reachable)
  with r f table_shows_printable_prefix [OF reach] show ?thesis by blast
qed

text \<open>C3. In every reachable state the chart variable is unset while that printable prefix
  is empty, and otherwise holds the pie chart of exactly that prefix: labels the vendors,
  data the prices, in order.\<close>

theorem chart_shows_printable_prefix:
  assumes "reachable w"
  shows "case chart_var (canvas (pg w)) of
           None \<Rightarrow> takeWhile renderable (data (pg w)) = []
         | Some ch \<Rightarrow> chart_cfg ch = chart_config_of (takeWhile renderable (data (pg w)))"
  using reachable_world_ok [OF assms]
  by (auto simp: world_ok_def render_ok_def chart_matches_def split: option.splits)

theorem chart_shows_printable_prefix_witness:
  "\<exists>w. run sample_run init_world = Some w \<and> reachable w \<and>
     (case chart_var (canvas (pg w)) of
        None \<Rightarrow> takeWhile renderable (data (pg w)) = []
      | Some ch \<Rightarrow> chart_cfg ch = chart_config_of (takeWhile renderable (data (pg w))))"
proof -
  obtain w where r: "run sample_run init_world = Some w" using sample_run_facts by blast
  have reach: "reachable w" using r by (rule sample_run_reachable)
  with r chart_shows_printable_prefix [OF reach] show ?thesis by blast
qed

text \<open>C4. When every vendor can be printed, the table has exactly one row per record and
  the chart one slice per record, labelled by the vendors and sized by the prices in the
  order of \<open>data\<close>, which is completion order.\<close>

theorem rows_and_slices_match_data:
  assumes "reachable w" and "list_all renderable (data (pg w))" and "data (pg w) \<noteq> []"
  shows "length (table (pg w)) = length (data (pg w)) \<and>
         (\<exists>ch. chart_var (canvas (pg w)) = Some ch \<and>
               chart_labels (chart_cfg ch) = map vendor (data (pg w)) \<and>
               dataset_data (chart_cfg ch) = map price (data (pg w)))"
proof -
  have ok: "world_ok w" by (rule reachable_world_ok [OF assms(1)])
  have tw: "takeWhile renderable (data (pg w)) = data (pg w)"
    using assms(2) by (rule takeWhile_all_eq)
  from ok have "length (table (pg w)) = length (data (pg w))"
    using table_rows_all [OF assms(2)] by (simp add: world_ok_def render_ok_def)
  moreover obtain ch where "chart_var (canvas (pg w)) = Some ch"
    and "chart_cfg ch = chart_config_of (data (pg w))"
    using ok assms(3) unfolding world_ok_def render_ok_def chart_matches_def tw
    by (auto split: option.splits)
  ultimately show ?thesis by (auto simp: chart_config_of_def)
qed

theorem rows_and_slices_match_data_witness:
  "\<exists>w. run sample_run init_world = Some w \<and> reachable w \<and> list_all renderable (data (pg w)) \<and>
     data (pg w) \<noteq> [] \<and> length (table (pg w)) = length (data (pg w)) \<and>
     (\<exists>ch. chart_var (canvas (pg w)) = Some ch \<and>
           chart_labels (chart_cfg ch) = map vendor (data (pg w)) \<and>
           dataset_data (chart_cfg ch) = map price (data (pg w)))"
proof -
  obtain w where r: "run sample_run init_world = Some w"
    and d: "data (pg w) = [\<lparr>vendor = JString ''ACME'', price = Fin 3462142213541069 (-48)\<rparr>]"
    using sample_run_facts by blast
  have reach: "reachable w" using r by (rule sample_run_reachable)
  have ren: "list_all renderable (data (pg w))" using d by (simp add: renderable_def)
  have ne: "data (pg w) \<noteq> []" using d by simp
  from r reach ren ne rows_and_slices_match_data [OF reach ren ne] show ?thesis by blast
qed

subsection \<open>The upload pipeline, one step at a time\<close>

text \<open>C5. When the \<open>Storage.put\<close> of a pending call is rejected, the call ends with
  the error logged: nothing is appended to \<open>data\<close>, table and chart are untouched, and
  every other pending call stays pending, in order, to be processed normally.\<close>

theorem upload_failure_appends_nothing:
  assumes "step (Settle i (PutRejected e)) w = Some w'"
  shows "data (pg w') = data (pg w) \<and> table (pg w') = table (pg w) \<and>
         canvas (pg w') = canvas (pg w) \<and> console (pg w') = console (pg w) @ [ErrUploading e] \<and>
         pending w' = take i (pending w) @ drop (Suc i) (pending w)"
  using assms
  by (cases "pending w ! i") (auto simp: replace_task_def log_def split: if_splits)

theorem upload_failure_appends_nothing_witness:
  "\<exists>w w'. run sample_upload init_world = Some w \<and>
     step (Settle 0 (PutRejected StorageError)) w = Some w' \<and>
     data (pg w') = data (pg w) \<and> table (pg w') = table (pg w) \<and>
     canvas (pg w') = canvas (pg w) \<and> console (pg w') = console (pg w) @ [ErrUploading StorageError] \<and>
     pending w' = take 0 (pending w) @ drop (Suc 0) (pending w)"
proof -
  obtain w where r: "run sample_upload init_world = Some w"
    and t: "pending w = [AwaitPut ''receipts/undefined'' (demo_request ''Vendor 0'')]"
    using sample_upload_facts by blast
  obtain w' where s: "step (Settle 0 (PutRejected StorageError)) w = Some w'"
    using t by (simp add: replace_task_def)
  from r s upload_failure_appends_nothing [OF s] show ?thesis by blast
qed

text \<open>C6. When the \<open>fetch\<close> of the receipt details, or the JSON decoding of its
  answer, fails, the call does not abort: it appends the record \<open>{vendor: 'Unknown',
  price: 0}\<close>.\<close>

theorem fetch_failure_appends_unknown:
  assumes "step (Settle i s) w = Some w'" and "s = FetchRejected e \<or> s = JsonRejected e"
  shows "data (pg w') = data (pg w) @ [\<lparr>vendor = JString ''Unknown'', price = Fin 0 0\<rparr>]"
  using assms
  by (cases "pending w ! i")
     (auto simp: make_expense_def js_or_def num_or_def fallback_details_def split: if_splits)

theorem fetch_failure_appends_unknown_witness:
  "\<exists>w w'. run (sample_upload @ [Settle 0 PutResolved]) init_world = Some w \<and>
     step (Settle 0 (FetchRejected NetworkError)) w = Some w' \<and>
     (FetchRejected NetworkError = FetchRejected NetworkError \<or> FetchRejected NetworkError = JsonRejected NetworkError) \<and>
     data (pg w') = data (pg w) @ [\<lparr>vendor = JString ''Unknown'', price = Fin 0 0\<rparr>]"
proof -
  obtain w where r: "run (sample_upload @ [Settle 0 PutResolved]) init_world = Some w"
    and t: "pending w = [AwaitFetch ''receipts/undefined'']"
    using sample_fetch_facts by blast
  obtain w' where s: "step (Settle 0 (FetchRejected NetworkError)) w = Some w'"
    using t by (simp add: replace_task_def)
  have "data (pg w') = data (pg w) @ [\<lparr>vendor = JString ''Unknown'', price = Fin 0 0\<rparr>]"
    using fetch_failure_appends_unknown [OF s] by simp
  with r s show ?thesis by blast
qed

text \<open>C7. When the JSON answer of a pending call arrives and \<open>result.vendor\<close> and
  \<open>parseFloat(result.total)\<close> evaluate to \<open>v\<close> and \<open>t\<close>, the call ends and appends
  \<open>{vendor: v || 'Unknown Vendor', price: t || 0}\<close>; the other calls stay pending.\<close>

theorem json_success_appends_record:
  assumes "i < length (pending w)" and "pending w ! i = AwaitJson k"
    and "details_of_result r = Inr (v, t)"
  shows "\<exists>w'. step (Settle i (JsonResolved r)) w = Some w' \<and>
           data (pg w') = data (pg w) @ [\<lparr>vendor = js_or v (JString ''Unknown Vendor''),
                                        price = num_or t (Fin 0 0)\<rparr>] \<and>
           pending w' = take i (pending w) @ drop (Suc i) (pending w)"
  using assms by (simp add: replace_task_def make_expense_def)

theorem json_success_appends_record_witness:
  "\<exists>w w'. run (sample_upload @ [Settle 0 PutResolved, Settle 0 FetchResolved]) init_world = Some w \<and>
     step (Settle 0 (JsonResolved sample_response)) w = Some w' \<and>
     data (pg w') = data (pg w) @ [\<lparr>vendor = js_or (JString ''ACME'') (JString ''Unknown Vendor''),
                                  price = num_or (Fin 3462142213541069 (-48)) (Fin 0 0)\<rparr>] \<and>
     pending w' = take 0 (pending w) @ drop (Suc 0) (pending w)"
proof -
  obtain w where r: "run (sample_upload @ [Settle 0 PutResolved, Settle 0 FetchResolved]) init_world = Some w"
    and t: "pending w = [AwaitJson ''receipts/undefined'']"
    using sample_json_facts by blast
  have i: "0 < length (pending w)" and k: "pending w ! 0 = AwaitJson ''receipts/undefined''"
    using t by simp_all
  from json_success_appends_record [OF i k sample_response_details] r show ?thesis by blast
qed

text \<open>C8. No record ever holds NaN as its price, so the table never prints \<open>NaN\<close>:
  \<open>total || 0\<close> turns an unparsable total (NaN) into 0.\<close>

theorem price_never_NaN:
  assumes "reachable w"
  shows "\<forall>e\<in>set (data (pg w)). price e \<noteq> NaN \<and> to_fixed 2 (price e) \<noteq> ''NaN''"
  using reachable_world_ok [OF assms] by (simp add: world_ok_def prices_ok_def to_fixed_NaN_iff)

theorem price_never_NaN_witness:
  "\<exists>w. run sample_run init_world = Some w \<and> reachable w \<and>
     (\<forall>e\<in>set (data (pg w)). price e \<noteq> NaN \<and> to_fixed 2 (price e) \<noteq> ''NaN'')"
proof -
  obtain w where r: "run sample_run init_world = Some w" using sample_run_facts by blast
  have reach: "reachable w" using r by (rule sample_run_reachable)
  with r price_never_NaN [OF reach] show ?thesis by blast
qed

text \<open>C9. The price column is \<open>toFixed(2)\<close> of the price (C2). For every finite Number
  \<open>x\<close> with \<open>|x| < 10^21\<close> and every \<open>f > 0\<close>, \<open>toFixed(f)\<close> prints a minus sign when
  \<open>x\<close> is negative, a non-empty run of digits, a point and exactly \<open>f\<close> digits; read
  back with the digit value of the \<open>parseFloat\<close> scanner and scaled by \<open>10^-f\<close>, the
  printed digits are within half a unit of the last place of \<open>|x|\<close>.\<close>

theorem to_fixed_rounds_to_nearest:
  assumes "0 < f" and "\<bar>num_val m e\<bar> < 10 ^ 21"
  shows "\<exists>ip fp. to_fixed f (Fin m e) = (if m < 0 then ''-'' else '''') @ ip @ ''.'' @ fp \<and>
     length fp = f \<and> ip \<noteq> [] \<and> set (ip @ fp) \<subseteq> decimal_chars \<and>
     \<bar>of_nat (digits_value (ip @ fp)) / 10 ^ f - \<bar>num_val m e\<bar>\<bar> \<le> 1 / (2 * 10 ^ f)"
proof -
  obtain P Q where pq: "bin_frac (nat \<bar>m\<bar>) e = (P, Q)" by fastforce
  from bin_frac_value [OF pq] have Q: "0 < Q" and v: "of_nat P / of_nat Q = \<bar>num_val m e\<bar>"
    by simp_all
  have "of_nat P < (10 ^ 21 * of_nat Q :: rat)"
    using assms(2) Q by (simp add: v [symmetric] divide_less_eq)
  then have "of_nat P < (of_nat (10 ^ 21 * Q) :: rat)" by simp
  then have small: "\<not> 10 ^ 21 * Q \<le> P" by (simp only: of_nat_less_iff not_le)
  define n where "n = P * 10 ^ f div Q + (if Q \<le> 2 * (P * 10 ^ f mod Q) then 1 else 0)"
  obtain ip fp where fd: "fixed_digits f n = ip @ ''.'' @ fp" and shape: "length fp = f" "ip \<noteq> []"
    "set (ip @ fp) \<subseteq> decimal_chars" and val: "digits_value (ip @ fp) = n"
    using fixed_digits_shape [OF assms(1), of n] by blast
  have "\<bar>of_nat n - of_nat (P * 10 ^ f) / of_nat Q\<bar> \<le> (1 / 2 :: rat)"
    using round_half_up_bound [OF Q, of "P * 10 ^ f"] by (simp add: n_def)
  then have "\<bar>of_nat n - \<bar>num_val m e\<bar> * 10 ^ f\<bar> \<le> (1 / 2 :: rat)"
    by (simp add: v [symmetric])
  then have "\<bar>of_nat n / 10 ^ f - \<bar>num_val m e\<bar>\<bar> \<le> 1 / (2 * 10 ^ f)"
    by (rule scaled_error_bound)
  moreover have "to_fixed f (Fin m e) = (if m < 0 then ''-'' else '''') @ ip @ ''.'' @ fp"
    using to_fixed_Fin_small [OF pq small, of f] fd by (simp add: n_def [symmetric])
  ultimately show ?thesis
    using shape unfolding val [symmetric] by blast
qed

theorem to_fixed_rounds_to_nearest_witness:
  "0 < (2::nat) \<and> \<bar>num_val 3462142213541069 (-48)\<bar> < 10 ^ 21 \<and>
   (\<exists>ip fp. to_fixed 2 (Fin 3462142213541069 (-48)) =
      (if (3462142213541069::int) < 0 then ''-'' else '''') @ ip @ ''.'' @ fp \<and>
      length fp = 2 \<and> ip \<noteq> [] \<and> set (ip @ fp) \<subseteq> decimal_chars \<and>
      \<bar>of_nat (digits_value (ip @ fp)) / 10 ^ 2 - \<bar>num_val 3462142213541069 (-48)\<bar>\<bar> \<le> 1 / (2 * 10 ^ 2))"
proof -
  have h: "\<bar>num_val 3462142213541069 (-48)\<bar> < 10 ^ 21"
    by (simp add: num_val_def power_int_def power_one_over divide_less_eq)
  from to_fixed_rounds_to_nearest [OF _ h, of 2] h show ?thesis by simp
qed

text \<open>C10. \<open>data\<close> only grows: no step of the event loop removes, reorders or changes a
  record already appended.\<close>

theorem data_append_only:
  assumes "step e w = Some w'"
  shows "prefix (data (pg w)) (data (pg w'))"
  using assms by (rule step_data_prefix)

theorem data_append_only_witness:
  "\<exists>w w'. run (sample_upload @ [Settle 0 PutResolved, Settle 0 FetchResolved]) init_world = Some w \<and>
     step (Settle 0 (JsonResolved sample_response)) w = Some w' \<and> prefix (data (pg w)) (data (pg w'))"
proof -
  obtain w where r: "run (sample_upload @ [Settle 0 PutResolved, Settle 0 FetchResolved]) init_world = Some w"
    and t: "pending w = [AwaitJson ''receipts/undefined'']"
    using sample_json_facts by blast
  obtain w' where s: "step (Settle 0 (JsonResolved sample_response)) w = Some w'"
    using t by (simp add: replace_task_def)
  from r s data_append_only [OF s] show ?thesis by blast
qed

subsection \<open>Termination and progress\<close>

text \<open>C11. The pending calls cannot be resumed forever: any sequence of settlements the
  event loop accepts from a world is at most as long as three per call suspended at
  \<open>Storage.put\<close>, two per call at \<open>fetch\<close> and one per call at \<open>response.json()\<close>.\<close>

theorem settlements_bounded:
  assumes "run (map (\<lambda>(i, s). Settle i s) ss) w = Some w'"
  shows "length ss \<le> pending_work w"
  using assms
proof (induction ss arbitrary: w)
  case Nil
  then show ?case by simp
next
  case (Cons x ss)
  obtain i s where x: "x = (i, s)" by fastforce
  with Cons.prems obtain w1 where s1: "step (Settle i s) w = Some w1"
    and rest: "run (map (\<lambda>(i, s). Settle i s) ss) w1 = Some w'"
    by (auto split: option.splits)
  from Cons.IH [OF rest] step_Settle_work [OF s1] x show ?case by simp
qed

theorem settlements_bounded_witness:
  "\<exists>w w'. run sample_upload init_world = Some w \<and>
     run (map (\<lambda>(i, s). Settle i s) [(0, PutResolved), (0, FetchResolved), (0, JsonResolved sample_response)]) w = Some w' \<and>
     length [(0::nat, PutResolved), (0, FetchResolved), (0, JsonResolved sample_response)] \<le> pending_work w"
proof -
  obtain w where r: "run sample_upload init_world = Some w"
    and t: "pending w = [AwaitPut ''receipts/undefined'' (demo_request ''Vendor 0'')]"
    using sample_upload_facts by blast
  have "\<exists>w'. run (map (\<lambda>(i, s). Settle i s) [(0, PutResolved), (0, FetchResolved), (0, JsonResolved sample_response)]) w = Some w'"
    using t by (simp add: replace_task_def sample_response_details)
  then obtain w' where s: "run (map (\<lambda>(i, s). Settle i s) [(0, PutResolved), (0, FetchResolved), (0, JsonResolved sample_response)]) w = Some w'"
    by blast
  from r s settlements_bounded [OF s] show ?thesis by blast
qed

text \<open>C12. From any world, every pending call can be brought to its end: settling the
  first pending call, one after the other, with the rejection of what it awaits empties the
  set of pending calls.\<close>

theorem pending_calls_can_finish:
  "\<exists>w'. run (map (\<lambda>t. Settle 0 (abort_settlement t)) (pending w)) w = Some w' \<and> pending w' = []"
  by (rule run_abort_all) (rule refl)

subsection \<open>What the listeners upload, and the drop area\<close>

text \<open>C13. Both listeners pass a string to \<open>addEntry\<close>, so every \<open>Storage.put\<close> the
  page makes uses the key \<open>receipts/undefined\<close> (a string has no \<open>name\<close>) with the
  vendor string as body, and the bucket only ever holds that one key: each upload
  overwrites the previous one.\<close>

theorem uploads_share_undefined_key:
  assumes "reachable w"
  shows "(\<forall>r\<in>set (puts (pg w)). put_key r = ''receipts/undefined'' \<and> is_string_body (put_body r)) \<and>
         (\<forall>k r. bucket (pg w) k = Some r \<longrightarrow> k = ''receipts/undefined'')"
  using reachable_world_ok [OF assms] by (simp add: world_ok_def uploads_ok_def)

theorem uploads_share_undefined_key_witness:
  "\<exists>w. run sample_run init_world = Some w \<and> reachable w \<and>
     puts (pg w) \<noteq> [] \<and> bucket (pg w) ''receipts/undefined'' \<noteq> None \<and>
     (\<forall>r\<in>set (puts (pg w)). put_key r = ''receipts/undefined'' \<and> is_string_body (put_body r)) \<and>
     (\<forall>k r. bucket (pg w) k = Some r \<longrightarrow> k = ''receipts/undefined'')"
proof -
  obtain w where r: "run sample_run init_world = Some w"
    and f: "puts (pg w) \<noteq> []" "bucket (pg w) ''receipts/undefined'' \<noteq> None"
    using sample_run_facts by fastforce
  have reach: "reachable w" using r by (rule sample_run_reachable)
  with r f uploads_share_undefined_key [OF reach] show ?thesis by blast
qed

text \<open>C14. A drop on the drop area never runs the browser's default action of opening the
  file: the \<open>dragover\<close> listener cancels the event, so the drop reaches the page, and the
  \<open>drop\<close> listener cancels the drop.\<close>

theorem drop_never_navigates:
  assumes "reachable w"
  shows "\<not> navigated w"
  using reachable_world_ok [OF assms] by (simp add: world_ok_def drop_ok_def)

theorem drop_never_navigates_witness:
  "\<exists>w. run sample_upload init_world = Some w \<and> reachable w \<and> \<not> navigated w"
proof -
  obtain w where r: "run sample_upload init_world = Some w" using sample_upload_facts by blast
  have reach: "reachable w" using r by (rule sample_run_reachable)
  with r drop_never_navigates [OF reach] show ?thesis by blast
qed

text \<open>C15. Once a record whose vendor cannot be printed (an object with an own
  \<open>toString\<close>, C7 stores it since it is truthy) is at position \<open>i\<close> of \<open>data\<close>, no later
  run of the page ever shows more than \<open>i\<close> rows or a chart of more than \<open>i\<close> slices,
  whatever uploads succeed afterwards: \<open>updateTable\<close> throws at that row on every call
  and \<open>updateChart\<close> is skipped.\<close>

theorem unprintable_vendor_freezes_page:
  assumes "reachable w" and "i < length (data (pg w))" and "\<not> renderable (data (pg w) ! i)"
    and "run evs w = Some w'"
  shows "length (table (pg w')) \<le> i \<and>
         (case chart_var (canvas (pg w')) of None \<Rightarrow> True
          | Some ch \<Rightarrow> length (chart_labels (chart_cfg ch)) \<le> i)"
proof -
  have ok: "world_ok w'" using run_reachable [OF assms(4,1)] by (rule reachable_world_ok)
  have tw: "length (takeWhile renderable (data (pg w'))) \<le> i"
    using run_data_prefix [OF assms(4)] assms(2,3) by (rule takeWhile_prefix_bound)
  from ok tw have "length (table (pg w')) \<le> i"
    by (simp add: world_ok_def render_ok_def table_rows_length)
  moreover from ok tw have "case chart_var (canvas (pg w')) of None \<Rightarrow> True
          | Some ch \<Rightarrow> length (chart_labels (chart_cfg ch)) \<le> i"
    by (auto simp: world_ok_def render_ok_def chart_matches_def chart_config_of_def
        split: option.splits)
  ultimately show ?thesis ..
qed

theorem unprintable_vendor_freezes_page_witness:
  "\<exists>w w'. run hostile_run init_world = Some w \<and> run sample_run w = Some w' \<and> reachable w \<and>
     0 < length (data (pg w)) \<and> \<not> renderable (data (pg w) ! 0) \<and> length (data (pg w')) = 3 \<and>
     length (table (pg w')) \<le> 0 \<and>
     (case chart_var (canvas (pg w')) of None \<Rightarrow> True
      | Some ch \<Rightarrow> length (chart_labels (chart_cfg ch)) \<le> 0)"
proof -
  obtain w w' where r: "run hostile_run init_world = Some w" and r': "run sample_run w = Some w'"
    and f: "length (data (pg w)) = 2" "\<not> renderable (data (pg w) ! 0)" "length (data (pg w')) = 3"
    using hostile_run_facts by blast
  have reach: "reachable w" using r by (rule sample_run_reachable)
  have "0 < length (data (pg w))" using f by simp
  with reach r r' f unprintable_vendor_freezes_page [OF reach _ f(2) r'] show ?thesis by blast
qed

text \<open>C16. The file input's listener ignores the files the user picked: two selections
  with the same random draws leave the same page and the same pending calls.\<close>

theorem file_change_ignores_files:
  assumes "map snd fs = map snd gs"
  shows "on_file_change fs p = on_file_change gs p"
proof -
  have eq: "map (\<lambda>x. fst (snd x)) fs = map (\<lambda>x. fst (snd x)) gs"
    using arg_cong [OF assms, of "map fst"] by (simp add: comp_def)
  have a: "map (\<lambda>x. demo_request (demo_vendor (fst (snd x)))) fs =
           map (\<lambda>x. demo_request (demo_vendor (fst (snd x)))) gs"
    using arg_cong [OF eq, of "map (\<lambda>r. demo_request (demo_vendor r))"] by (simp add: comp_def)
  have b: "map (\<lambda>x. AwaitPut ''receipts/undefined'' (demo_request (demo_vendor (fst (snd x))))) fs =
           map (\<lambda>x. AwaitPut ''receipts/undefined'' (demo_request (demo_vendor (fst (snd x))))) gs"
    using arg_cong [OF eq, of "map (\<lambda>r. AwaitPut ''receipts/undefined'' (demo_request (demo_vendor r)))"]
    by (simp add: comp_def)
  from a b show ?thesis by (simp add: on_file_change_def spawn_entries_eq)
qed

theorem file_change_ignores_files_witness:
  "map snd [(sample_file, Fin 0 0, Fin 0 0)] = map snd [(sample_file\<lparr>file_name := ''other.pdf''\<rparr>, Fin 0 0, Fin 0 0)] \<and>
   on_file_change [(sample_file, Fin 0 0, Fin 0 0)] init_page =
   on_file_change [(sample_file\<lparr>file_name := ''other.pdf''\<rparr>, Fin 0 0, Fin 0 0)] init_page"
proof -
  have h: "map snd [(sample_file, Fin 0 0, Fin 0 0)] = map snd [(sample_file\<lparr>file_name := ''other.pdf''\<rparr>, Fin 0 0, Fin 0 0)]"
    by simp
  from h file_change_ignores_files [OF h] show ?thesis by blast
qed

end
